theory Spec2Isabelle
  imports Main
begin

unbundle bit_operations_syntax

section \<open>Errors and outcomes\<close>

text \<open>
  The source raises \<^verbatim>\<open>xrt_core::error(code, message)\<close>; \<^verbatim>\<open>std::vector::at\<close> raises
  \<^verbatim>\<open>std::out_of_range\<close>. An unchecked \<^verbatim>\<open>operator[]\<close> out of range, and
  \<^verbatim>\<open>front()\<close>/\<^verbatim>\<open>pop()\<close> on an empty queue, have no defined behaviour in C++: the model
  makes that the outcome \<open>Undefined\<close>, which is neither a value nor a raised error.
\<close>

datatype error = xrt_error (err_code: int) (err_what: string) | std_out_of_range

datatype 'a outcome = Ok 'a | Throw error | Undefined

definition EINVAL :: int where "EINVAL = 22"
definition EAGAIN :: int where "EAGAIN = 11"

section \<open>The hardware-control interface and the operating system\<close>

datatype XAie_DmaDirection = DMA_S2MM | DMA_MM2S
datatype XAie_StrmPortIntf = XAIE_STRMSW_SLAVE | XAIE_STRMSW_MASTER
datatype XAie_ModuleType = XAIE_MEM_MOD | XAIE_CORE_MOD | XAIE_PL_MOD

record XAie_LocType =
  Row :: nat
  Col :: nat

text \<open>\<^verbatim>\<open>XAie_TileLoc(col, row)\<close> of the vendor library: both fields are 8 bits wide.\<close>

definition XAie_TileLoc :: "nat \<Rightarrow> nat \<Rightarrow> XAie_LocType" where
  "XAie_TileLoc c r = \<lparr>Row = r mod 256, Col = c mod 256\<rparr>"

definition XAIE_OK :: int where "XAIE_OK = 0"

text \<open>
  Every call that leaves the program (vendor library, ioctl, mmap, buffer-handle API) is
  an event. \<open>Errno\<close> is the read of \<^verbatim>\<open>errno\<close> after a failed call; it is answered by the
  environment but is not a call, so it is never recorded.
\<close>

datatype hw_call =
    DmaGetPendingBdCount XAie_LocType nat XAie_DmaDirection
  | DmaWaitForDone XAie_LocType nat XAie_DmaDirection nat
  | BOExport nat
  | IoctlAttachDmabuf int int
  | BOSize nat
  | Mmap int int
  | Munmap int int
  | IoctlDetachDmabuf int int
  | DmaSetAddrLen int nat
  | DmaSetLock nat nat
  | DmaEnableBd
  | DmaWriteBd XAie_LocType nat
  | DmaChannelPushBdToQueue XAie_LocType nat XAie_DmaDirection nat
  | EventSelectStrmPort XAie_LocType nat XAie_StrmPortIntf nat
  | PerfCounterControlSet XAie_LocType XAie_ModuleType nat nat nat
  | PerfCounterGet XAie_LocType XAie_ModuleType nat
  | PerfCounterReset XAie_LocType XAie_ModuleType nat
  | PerfCounterResetControlReset XAie_LocType XAie_ModuleType nat
  | EventSelectStrmPortReset XAie_LocType nat
  | Errno

text \<open>
  The environment is any deterministic answer to a call given the calls made so far:
  \<open>hw tr c\<close> is what call \<open>c\<close> returns (or writes to its output argument) after the
  history \<open>tr\<close>. Nothing is assumed about it.
\<close>

type_synonym hw = "hw_call list \<Rightarrow> hw_call \<Rightarrow> int"

section \<open>Data model\<close>

text \<open>
  The structs are declared in \<^verbatim>\<open>aie.h\<close>, which is not among the sources; their fields are
  the ones the code reads and writes. \<open>bd_size\<close> is the field \<^verbatim>\<open>size\<close>, \<open>res_id\<close> the
  field \<^verbatim>\<open>id\<close>, and the port descriptors' fields carry a prefix, since HOL has constants
  of those names and one record's field names must differ from another's.
\<close>

record BD =
  bd_num :: nat
  buf_fd :: int
  vaddr :: int
  bd_size :: int

record DMAChannel =
  idle_bds :: "BD list"
  pend_bds :: "BD list"

record ShimDMA =
  dma_chan :: "DMAChannel list"
  configured :: bool
  maxqSize :: nat

record gmio_type =
  gmio_name :: string
  gmio_type :: nat
  gmio_shim_col :: nat
  gmio_channel_number :: nat
  gmio_stream_id :: nat
  gmio_burst_len :: nat

record plio_type =
  plio_name :: string
  plio_logical_name :: string
  plio_shim_col :: nat
  plio_stream_id :: nat
  plio_is_master :: bool

datatype module_type = pl_module | core_module | memory_module
datatype resource_type = performance_counter | stream_switch_event_port

record AcquiredResource =
  loc :: XAie_LocType
  module :: module_type
  resource :: resource_type
  res_id :: nat

record EventRecord =
  option :: int
  acquiredResources :: "AcquiredResource list"

datatype xclBOSyncDirection =
    XCL_BO_SYNC_BO_TO_DEVICE
  | XCL_BO_SYNC_BO_FROM_DEVICE
  | XCL_BO_SYNC_BO_GMIO_TO_AIE
  | XCL_BO_SYNC_BO_AIE_TO_GMIO

subsection \<open>The resource pool\<close>

text \<open>
  Modelled from the spec: the classes behind \<^verbatim>\<open>Resources::AIE::getShimTile(col)->plModule\<close>
  and \<^verbatim>\<open>Resources::AIE::getAIETile(col, row)->coreModule\<close> are not among the sources. The
  spec describes a pool of performance counters and stream event ports scoped to a tile
  location, requested with the session's handle as the owner and released back to the
  pool. Each slot holds its owner, \<open>None\<close> when free; a request takes the first free slot
  and answers its index, or \<open>-1\<close> when none is free; a release frees the slot when the
  releasing handle owns it.
\<close>

record module_pool =
  performanceCounters :: "int option list"
  streamEventPorts :: "int option list"

record Resources =
  shimTiles :: "nat \<Rightarrow> module_pool"
  aieTiles :: "nat \<Rightarrow> int \<Rightarrow> module_pool"

fun first_free :: "int option list \<Rightarrow> nat option" where
  "first_free [] = None"
| "first_free (x # xs) =
     (case x of None \<Rightarrow> Some 0 | Some _ \<Rightarrow> map_option Suc (first_free xs))"

definition request_slot :: "int option list \<Rightarrow> int \<Rightarrow> int \<times> int option list" where
  "request_slot xs h =
     (case first_free xs of
        None \<Rightarrow> (- 1, xs)
      | Some i \<Rightarrow> (int i, xs[i := Some h]))"

definition release_slot :: "int option list \<Rightarrow> int \<Rightarrow> int \<Rightarrow> int option list" where
  "release_slot xs h i =
     (if 0 \<le> i \<and> nat i < length xs \<and> xs ! nat i = Some h then xs[nat i := None] else xs)"

definition requestStreamEventPort :: "Resources \<Rightarrow> nat \<Rightarrow> int \<Rightarrow> int \<times> Resources" where
  "requestStreamEventPort R c h =
     (let m = shimTiles R c; (i, ps) = request_slot (streamEventPorts m) h
      in (i, R\<lparr>shimTiles := (shimTiles R)(c := m\<lparr>streamEventPorts := ps\<rparr>)\<rparr>))"

definition requestPerformanceCounter :: "Resources \<Rightarrow> nat \<Rightarrow> int \<Rightarrow> int \<times> Resources" where
  "requestPerformanceCounter R c h =
     (let m = shimTiles R c; (i, ps) = request_slot (performanceCounters m) h
      in (i, R\<lparr>shimTiles := (shimTiles R)(c := m\<lparr>performanceCounters := ps\<rparr>)\<rparr>))"

definition releaseStreamEventPort :: "Resources \<Rightarrow> nat \<Rightarrow> int \<Rightarrow> int \<Rightarrow> Resources" where
  "releaseStreamEventPort R c h i =
     (let m = shimTiles R c
      in R\<lparr>shimTiles := (shimTiles R)(c := m\<lparr>streamEventPorts := release_slot (streamEventPorts m) h i\<rparr>)\<rparr>)"

definition releasePerformanceCounter :: "Resources \<Rightarrow> nat \<Rightarrow> int \<Rightarrow> int \<Rightarrow> Resources" where
  "releasePerformanceCounter R c h i =
     (let m = shimTiles R c
      in R\<lparr>shimTiles := (shimTiles R)(c := m\<lparr>performanceCounters := release_slot (performanceCounters m) h i\<rparr>)\<rparr>)"

definition releaseCorePerformanceCounter :: "Resources \<Rightarrow> nat \<Rightarrow> int \<Rightarrow> int \<Rightarrow> int \<Rightarrow> Resources" where
  "releaseCorePerformanceCounter R c r h i =
     (let m = aieTiles R c r
      in R\<lparr>aieTiles := (aieTiles R)(c := (aieTiles R c)(r := m\<lparr>performanceCounters := release_slot (performanceCounters m) h i\<rparr>))\<rparr>)"

subsection \<open>The array instance\<close>

text \<open>
  \<open>devInst\<close> is whether the device-instance pointer is set. \<open>resources\<close> is the pool, a
  process-wide static in the source. \<open>trace\<close> is the history of calls to the environment,
  oldest first.
\<close>

record Aie =
  devInst :: bool
  fd :: int
  gmios :: "gmio_type list"
  plios :: "plio_type list"
  shim_dma :: "ShimDMA list"
  eventRecords :: "EventRecord list"
  resources :: Resources
  trace :: "hw_call list"

section \<open>Constants of headers that are not among the sources\<close>

text \<open>
  Modelled from the spec: \<^verbatim>\<open>XAIEDMA_SHIM_TXFER_LEN32_MASK\<close>, "the 32-bit transfer-length
  mask" of the hardware's minimum transfer granularity, is defined in a header that is not
  among the sources. It is taken as the two low bits of a byte length: a length is aligned
  to 32 bits when it has neither.
\<close>

definition XAIEDMA_SHIM_TXFER_LEN32_MASK :: nat where
  "XAIEDMA_SHIM_TXFER_LEN32_MASK = 3"

text \<open>
  Modelled from the spec: \<^verbatim>\<open>CONVERT_LCHANL_TO_PCHANL\<close>, the physical channel of a logical
  channel; the source's comment gives four channels to a shim DMA, two in each direction.
\<close>

definition CONVERT_LCHANL_TO_PCHANL :: "nat \<Rightarrow> nat" where
  "CONVERT_LCHANL_TO_PCHANL l_ch = (if l_ch > 1 then l_ch - 2 else l_ch)"

text \<open>
  Modelled from the spec: \<^verbatim>\<open>XRT_NULL_BO_EXPORT\<close>, the export handle that says the export
  failed, and \<^verbatim>\<open>IO_STREAM_RUNNING_EVENT_COUNT\<close>, the one profiling option supported, are
  defined in headers that are not among the sources. The option is an enumerator, so it is
  not negative; its value is taken as 3.
\<close>

definition XRT_NULL_BO_EXPORT :: int where "XRT_NULL_BO_EXPORT = - 1"
definition IO_STREAM_RUNNING_EVENT_COUNT :: int where "IO_STREAM_RUNNING_EVENT_COUNT = 3"

text \<open>
  Modelled from the spec: \<^verbatim>\<open>AIEResourceModuletoXAieModuleTypeMap\<close>, from the pool's module
  kinds to the vendor library's.
\<close>

definition AIEResourceModuletoXAieModuleTypeMap :: "module_type \<Rightarrow> XAie_ModuleType" where
  "AIEResourceModuletoXAieModuleTypeMap m =
     (case m of pl_module \<Rightarrow> XAIE_PL_MOD | core_module \<Rightarrow> XAIE_CORE_MOD | memory_module \<Rightarrow> XAIE_MEM_MOD)"

section \<open>Integer conversions of the source\<close>

text \<open>
  \<^verbatim>\<open>int handleId = eventRecords.size()\<close> narrows a 64-bit size to a 32-bit signed int;
  \<^verbatim>\<open>phdl < eventRecords.size()\<close> and \<^verbatim>\<open>eventRecords[phdl]\<close> convert the int to a
  64-bit unsigned size, so a negative handle becomes a huge index.
\<close>

definition int_of_size_t :: "nat \<Rightarrow> int" where
  "int_of_size_t n = (int n + 2 ^ 31) mod 2 ^ 32 - 2 ^ 31"

definition size_t_of_int :: "int \<Rightarrow> nat" where
  "size_t_of_int i = nat (i mod 2 ^ 64)"

section \<open>Shim DMA transfers\<close>

text \<open>\<^verbatim>\<open>clear_bd\<close>: unmap the buffer, forget the mapping, detach the DMA buffer.\<close>

definition clear_bd :: "hw \<Rightarrow> int \<Rightarrow> BD \<Rightarrow> hw_call list \<Rightarrow> unit outcome \<times> BD \<times> hw_call list" where
  "clear_bd h f bd tr =
     (let tr1 = tr @ [Munmap (vaddr bd) (bd_size bd)];
          bd1 = bd\<lparr>vaddr := 0\<rparr>;
          c = IoctlDetachDmabuf f (buf_fd bd1);
          ret = h tr1 c;
          tr2 = tr1 @ [c]
      in if ret \<noteq> 0
         then (Throw (xrt_error (- h tr2 Errno) ''Sync AIE Bo: fail to detach DMA buf.''), bd1, tr2)
         else (Ok (), bd1, tr2))"

text \<open>\<^verbatim>\<open>prepare_bd\<close>: export the buffer, attach it to the device, map it.\<close>

definition prepare_bd :: "hw \<Rightarrow> int \<Rightarrow> BD \<Rightarrow> nat \<Rightarrow> hw_call list \<Rightarrow> unit outcome \<times> BD \<times> hw_call list" where
  "prepare_bd h f bd bo tr =
     (let c1 = BOExport bo; buf = h tr c1; tr1 = tr @ [c1]
      in if buf = XRT_NULL_BO_EXPORT
         then (Throw (xrt_error (- h tr1 Errno) ''Sync AIE Bo: fail to export BO.''), bd, tr1)
         else
           let bd1 = bd\<lparr>buf_fd := buf\<rparr>;
               c2 = IoctlAttachDmabuf f buf; ret = h tr1 c2; tr2 = tr1 @ [c2]
           in if ret \<noteq> 0
              then (Throw (xrt_error (- h tr2 Errno) ''Sync AIE Bo: fail to attach DMA buf.''), bd1, tr2)
              else
                let c3 = BOSize bo; bosize = h tr2 c3; tr3 = tr2 @ [c3];
                    bd2 = bd1\<lparr>bd_size := bosize\<rparr>;
                    c4 = Mmap bosize buf; p = h tr3 c4; tr4 = tr3 @ [c4]
                in (Ok (), bd2\<lparr>vaddr := p\<rparr>, tr4))"

text \<open>
  The body of both drain loops: copy the front of the pending queue, clear the copy, pop
  the queue, push the copy to the idle queue. When \<^verbatim>\<open>clear_bd\<close> raises, the queue has not
  been popped yet.
\<close>

definition drain_front :: "hw \<Rightarrow> int \<Rightarrow> DMAChannel \<Rightarrow> hw_call list \<Rightarrow> unit outcome \<times> DMAChannel \<times> hw_call list" where
  "drain_front h f ch tr =
     (case pend_bds ch of
        [] \<Rightarrow> (Undefined, ch, tr)
      | bd # rest \<Rightarrow>
          (case clear_bd h f bd tr of
             (Ok _, bd', tr') \<Rightarrow> (Ok (), ch\<lparr>pend_bds := rest, idle_bds := idle_bds ch @ [bd']\<rparr>, tr')
           | (Throw e, _, tr') \<Rightarrow> (Throw e, ch, tr')
           | (Undefined, _, tr') \<Rightarrow> (Undefined, ch, tr')))"

text \<open>The loop \<^verbatim>\<open>for (int i = 0; i < num_comp; ++i)\<close> of \<^verbatim>\<open>submit_sync_bo\<close>.\<close>

fun drain_completed :: "hw \<Rightarrow> int \<Rightarrow> nat \<Rightarrow> DMAChannel \<Rightarrow> hw_call list \<Rightarrow> unit outcome \<times> DMAChannel \<times> hw_call list" where
  "drain_completed h f 0 ch tr = (Ok (), ch, tr)"
| "drain_completed h f (Suc n) ch tr =
     (case drain_front h f ch tr of
        (Ok _, ch', tr') \<Rightarrow> drain_completed h f n ch' tr'
      | r \<Rightarrow> r)"

text \<open>
  The loop \<^verbatim>\<open>while (!pend_bds.empty())\<close> of \<^verbatim>\<open>wait_sync_bo\<close>: each round takes one
  descriptor off the pending queue, so the rounds are counted by its length.
\<close>

function drain_pending :: "hw \<Rightarrow> int \<Rightarrow> DMAChannel \<Rightarrow> hw_call list \<Rightarrow> unit outcome \<times> DMAChannel \<times> hw_call list" where
  "drain_pending h f ch tr =
     (if pend_bds ch = [] then (Ok (), ch, tr)
      else
        (case drain_front h f ch tr of
           (Ok _, ch', tr') \<Rightarrow> drain_pending h f ch' tr'
         | r \<Rightarrow> r))"
  by pat_completeness auto

termination drain_pending
  by (relation "measure (\<lambda>(h, f, ch, tr). length (pend_bds ch))")
     (auto simp: drain_front_def clear_bd_def Let_def split: list.splits if_splits)

text \<open>
  The busy wait of \<^verbatim>\<open>submit_sync_bo\<close>: while the idle queue is empty, ask the hardware how
  many descriptors are pending (an 8-bit count) and drain \<^verbatim>\<open>maxqSize - npend\<close> of them.
  The loop has no bound in the source; \<open>fuel\<close> counts its rounds and \<open>None\<close> says that
  it has not ended within them.
\<close>

fun find_free_bd ::
  "nat \<Rightarrow> hw \<Rightarrow> int \<Rightarrow> XAie_LocType \<Rightarrow> nat \<Rightarrow> XAie_DmaDirection \<Rightarrow> nat \<Rightarrow> DMAChannel \<Rightarrow> hw_call list
     \<Rightarrow> (unit outcome \<times> DMAChannel \<times> hw_call list) option" where
  "find_free_bd 0 h f tile pchan gmdir maxq ch tr =
     (if idle_bds ch \<noteq> [] then Some (Ok (), ch, tr) else None)"
| "find_free_bd (Suc k) h f tile pchan gmdir maxq ch tr =
     (if idle_bds ch \<noteq> [] then Some (Ok (), ch, tr)
      else
        let c = DmaGetPendingBdCount tile pchan gmdir;
            npend = h tr c mod 256;
            num_comp = int maxq - npend
        in (case drain_completed h f (nat num_comp) ch (tr @ [c]) of
              (Ok _, ch', tr') \<Rightarrow> find_free_bd k h f tile pchan gmdir maxq ch' tr'
            | r \<Rightarrow> Some r))"

text \<open>The loop \<^verbatim>\<open>while (XAie_DmaWaitForDone(...) != XAIE_OK);\<close> of \<^verbatim>\<open>wait_sync_bo\<close>.\<close>

fun wait_for_done ::
  "nat \<Rightarrow> hw \<Rightarrow> XAie_LocType \<Rightarrow> nat \<Rightarrow> XAie_DmaDirection \<Rightarrow> nat \<Rightarrow> hw_call list \<Rightarrow> hw_call list option" where
  "wait_for_done 0 h tile pchan gmdir timeout tr = None"
| "wait_for_done (Suc k) h tile pchan gmdir timeout tr =
     (let c = DmaWaitForDone tile pchan gmdir timeout
      in if h tr c \<noteq> XAIE_OK then wait_for_done k h tile pchan gmdir timeout (tr @ [c])
         else Some (tr @ [c]))"

text \<open>Writing a channel and the history back into the instance.\<close>

definition set_chan :: "Aie \<Rightarrow> nat \<Rightarrow> nat \<Rightarrow> DMAChannel \<Rightarrow> hw_call list \<Rightarrow> Aie" where
  "set_chan s c chan ch tr =
     s\<lparr>shim_dma := (shim_dma s)[c := (shim_dma s ! c)\<lparr>dma_chan := (dma_chan (shim_dma s ! c))[chan := ch]\<rparr>],
       trace := tr\<rparr>"

definition gmdir_of :: "gmio_type \<Rightarrow> XAie_DmaDirection" where
  "gmdir_of g = (if gmio_type g = 0 then DMA_MM2S else DMA_S2MM)"

text \<open>
  The second half of \<^verbatim>\<open>submit_sync_bo\<close>, from \<^verbatim>\<open>ShimDMA *dmap = &shim_dma.at(...)\<close> on:
  find a free descriptor, bind the buffer to it, program it and push it to the hardware
  queue and to the pending queue. The descriptor taken off the idle queue is a local copy
  until it is pushed to the pending queue.
\<close>

definition submit_bd ::
  "nat \<Rightarrow> hw \<Rightarrow> Aie \<Rightarrow> nat \<Rightarrow> gmio_type \<Rightarrow> nat \<Rightarrow> nat \<Rightarrow> (unit outcome \<times> Aie) option" where
  "submit_bd fuel h s bo gmio sz offset =
     (if \<not> gmio_shim_col gmio < length (shim_dma s)
      then Some (Throw std_out_of_range, s)
      else
        let dmap = shim_dma s ! gmio_shim_col gmio;
            chan = gmio_channel_number gmio;
            shim_tile = XAie_TileLoc (gmio_shim_col gmio) 0;
            gmdir = gmdir_of gmio;
            pchan = CONVERT_LCHANL_TO_PCHANL chan
        in if \<not> chan < length (dma_chan dmap) then Some (Undefined, s)
           else
             (case find_free_bd fuel h (fd s) shim_tile pchan gmdir (maxqSize dmap) (dma_chan dmap ! chan) (trace s) of
                None \<Rightarrow> None
              | Some (Ok _, ch, tr) \<Rightarrow>
                  (case idle_bds ch of
                     [] \<Rightarrow> Some (Undefined, set_chan s (gmio_shim_col gmio) chan ch tr)
                   | bd # rest \<Rightarrow>
                       let ch1 = ch\<lparr>idle_bds := rest\<rparr>
                       in (case prepare_bd h (fd s) bd bo tr of
                             (Ok _, bd1, tr1) \<Rightarrow>
                               let tr2 = tr1 @
                                     [DmaSetAddrLen (vaddr bd1 + int offset) sz,
                                      DmaSetLock (bd_num bd1) (bd_num bd1),
                                      DmaEnableBd,
                                      DmaWriteBd shim_tile (bd_num bd1),
                                      DmaChannelPushBdToQueue shim_tile pchan gmdir (bd_num bd1)];
                                   ch2 = ch1\<lparr>pend_bds := pend_bds ch1 @ [bd1]\<rparr>
                               in Some (Ok (), set_chan s (gmio_shim_col gmio) chan ch2 tr2)
                           | (Throw e, _, tr1) \<Rightarrow> Some (Throw e, set_chan s (gmio_shim_col gmio) chan ch1 tr1)
                           | (Undefined, _, tr1) \<Rightarrow> Some (Undefined, set_chan s (gmio_shim_col gmio) chan ch1 tr1)))
              | Some (Throw e, ch, tr) \<Rightarrow> Some (Throw e, set_chan s (gmio_shim_col gmio) chan ch tr)
              | Some (Undefined, ch, tr) \<Rightarrow> Some (Undefined, set_chan s (gmio_shim_col gmio) chan ch tr)))"

text \<open>
  \<^verbatim>\<open>submit_sync_bo\<close>: the direction and alignment checks, then the submission. The
  alignment test is the source's expression
  \<^verbatim>\<open>size & XAIEDMA_SHIM_TXFER_LEN32_MASK != 0\<close>, in which C++ applies \<^verbatim>\<open>!=\<close> before
  \<^verbatim>\<open>&\<close>: the size is masked with the truth value of \<^verbatim>\<open>MASK != 0\<close>.
\<close>

definition submit_sync_bo ::
  "nat \<Rightarrow> hw \<Rightarrow> Aie \<Rightarrow> nat \<Rightarrow> gmio_type \<Rightarrow> xclBOSyncDirection \<Rightarrow> nat \<Rightarrow> nat \<Rightarrow> (unit outcome \<times> Aie) option" where
  "submit_sync_bo fuel h s bo gmio dir sz offset =
     (if dir = XCL_BO_SYNC_BO_GMIO_TO_AIE \<and> gmio_type gmio \<noteq> 0
      then Some (Throw (xrt_error (- EINVAL) ''Sync BO direction does not match GMIO type''), s)
      else if dir = XCL_BO_SYNC_BO_AIE_TO_GMIO \<and> gmio_type gmio \<noteq> 1
      then Some (Throw (xrt_error (- EINVAL) ''Sync BO direction does not match GMIO type''), s)
      else if dir \<noteq> XCL_BO_SYNC_BO_GMIO_TO_AIE \<and> dir \<noteq> XCL_BO_SYNC_BO_AIE_TO_GMIO
      then Some (Throw (xrt_error (- EINVAL) ''Can't sync BO: unknown direction.''), s)
      else if (sz AND (if XAIEDMA_SHIM_TXFER_LEN32_MASK \<noteq> 0 then 1 else 0)) \<noteq> 0
      then Some (Throw (xrt_error (- EINVAL) ''Sync AIE Bo fails: size is not 32 bits aligned.''), s)
      else submit_bd fuel h s bo gmio sz offset)"

text \<open>
  \<^verbatim>\<open>wait_sync_bo\<close>; the pointer \<^verbatim>\<open>dmap\<close> is the column \<open>c\<close> of \<open>shim_dma\<close>, which the
  callers have checked with \<^verbatim>\<open>at\<close>.
\<close>

definition wait_sync_bo ::
  "nat \<Rightarrow> hw \<Rightarrow> Aie \<Rightarrow> nat \<Rightarrow> nat \<Rightarrow> XAie_LocType \<Rightarrow> XAie_DmaDirection \<Rightarrow> nat \<Rightarrow> (unit outcome \<times> Aie) option" where
  "wait_sync_bo fuel h s c chan tile gmdir timeout =
     (case wait_for_done fuel h tile (CONVERT_LCHANL_TO_PCHANL chan) gmdir timeout (trace s) of
        None \<Rightarrow> None
      | Some tr \<Rightarrow>
          if \<not> chan < length (dma_chan (shim_dma s ! c)) then Some (Undefined, s\<lparr>trace := tr\<rparr>)
          else
            (case drain_pending h (fd s) (dma_chan (shim_dma s ! c) ! chan) tr of
               (r, ch, tr') \<Rightarrow> Some (r, set_chan s c chan ch tr')))"

text \<open>The lookup \<^verbatim>\<open>std::find_if\<close> of a GMIO port by name: the first one of that name.\<close>

definition find_gmio :: "gmio_type list \<Rightarrow> string \<Rightarrow> gmio_type option" where
  "find_gmio gs n = find (\<lambda>it. gmio_name it = n) gs"

text \<open>
  The steps \<^verbatim>\<open>sync_bo\<close> and \<^verbatim>\<open>wait_gmio\<close> share: look the port's column up with
  \<^verbatim>\<open>shim_dma.at\<close>, which raises when there is no such column, and wait on the port's
  channel with timeout 0.
\<close>

definition wait_port :: "nat \<Rightarrow> hw \<Rightarrow> Aie \<Rightarrow> gmio_type \<Rightarrow> (unit outcome \<times> Aie) option" where
  "wait_port fuel h s gmio =
     (if \<not> gmio_shim_col gmio < length (shim_dma s) then Some (Throw std_out_of_range, s)
      else wait_sync_bo fuel h s (gmio_shim_col gmio) (gmio_channel_number gmio)
             (XAie_TileLoc (gmio_shim_col gmio) 0) (gmdir_of gmio) 0)"

definition sync_bo ::
  "nat \<Rightarrow> hw \<Rightarrow> Aie \<Rightarrow> nat \<Rightarrow> string \<Rightarrow> xclBOSyncDirection \<Rightarrow> nat \<Rightarrow> nat \<Rightarrow> (unit outcome \<times> Aie) option" where
  "sync_bo fuel h s bo gmioName dir sz offset =
     (if \<not> devInst s then Some (Throw (xrt_error (- EINVAL) ''Can't sync BO: AIE is not initialized''), s)
      else
        (case find_gmio (gmios s) gmioName of
           None \<Rightarrow> Some (Throw (xrt_error (- EINVAL) ''Can't sync BO: GMIO name not found''), s)
         | Some gmio \<Rightarrow>
             (case submit_sync_bo fuel h s bo gmio dir sz offset of
                None \<Rightarrow> None
              | Some (Ok _, s1) \<Rightarrow> wait_port fuel h s1 gmio
              | Some r \<Rightarrow> Some r)))"

definition sync_bo_nb ::
  "nat \<Rightarrow> hw \<Rightarrow> Aie \<Rightarrow> nat \<Rightarrow> string \<Rightarrow> xclBOSyncDirection \<Rightarrow> nat \<Rightarrow> nat \<Rightarrow> (unit outcome \<times> Aie) option" where
  "sync_bo_nb fuel h s bo gmioName dir sz offset =
     (if \<not> devInst s then Some (Throw (xrt_error (- EINVAL) ''Can't sync BO: AIE is not initialized''), s)
      else
        (case find_gmio (gmios s) gmioName of
           None \<Rightarrow> Some (Throw (xrt_error (- EINVAL) ''Can't sync BO: GMIO name not found''), s)
         | Some gmio \<Rightarrow> submit_sync_bo fuel h s bo gmio dir sz offset))"

definition wait_gmio :: "nat \<Rightarrow> hw \<Rightarrow> Aie \<Rightarrow> string \<Rightarrow> (unit outcome \<times> Aie) option" where
  "wait_gmio fuel h s gmioName =
     (if \<not> devInst s then Some (Throw (xrt_error (- EINVAL) ''Can't wait GMIO: AIE is not initialized''), s)
      else
        (case find_gmio (gmios s) gmioName of
           None \<Rightarrow> Some (Throw (xrt_error (- EINVAL) ''Can't wait GMIO: GMIO name not found''), s)
         | Some gmio \<Rightarrow> wait_port fuel h s gmio))"

section \<open>Profiling sessions\<close>

text \<open>
  The PLIO lookup of \<^verbatim>\<open>start_profiling\<close>: by name first, then by logical name.
\<close>

definition find_plio :: "plio_type list \<Rightarrow> string \<Rightarrow> plio_type option" where
  "find_plio ps n =
     (case find (\<lambda>it. plio_name it = n) ps of
        None \<Rightarrow> find (\<lambda>it. plio_logical_name it = n) ps
      | Some p \<Rightarrow> Some p)"

text \<open>
  The second half of \<^verbatim>\<open>start_profiling\<close>, from \<^verbatim>\<open>int handleId = eventRecords.size()\<close> on:
  request the event port, then the counter; record the session when both were granted,
  give back what was granted and raise otherwise.
\<close>

definition start_on_tile ::
  "Aie \<Rightarrow> int \<Rightarrow> XAie_LocType \<Rightarrow> XAie_StrmPortIntf \<Rightarrow> nat \<Rightarrow> int outcome \<times> Aie" where
  "start_on_tile s opt shim_tile mode stream_id =
     (let handleId = int_of_size_t (length (eventRecords s));
          (eventPortId, R1) = requestStreamEventPort (resources s) (Col shim_tile) handleId;
          (counterId, R2) = requestPerformanceCounter R1 (Col shim_tile) handleId
      in if counterId \<ge> 0 \<and> eventPortId \<ge> 0
         then
           (Ok handleId,
            s\<lparr>eventRecords := eventRecords s @
                 [\<lparr>option = opt,
                   acquiredResources =
                     [\<lparr>loc = shim_tile, module = pl_module, resource = performance_counter,
                       res_id = nat counterId\<rparr>,
                      \<lparr>loc = shim_tile, module = pl_module, resource = stream_switch_event_port,
                       res_id = nat eventPortId\<rparr>]\<rparr>],
               resources := R2,
               trace := trace s @
                 [EventSelectStrmPort shim_tile (nat eventPortId mod 256) mode stream_id,
                  PerfCounterControlSet shim_tile XAIE_PL_MOD (nat counterId mod 256)
                    (nat eventPortId) (nat eventPortId)]\<rparr>)
         else
           let R3 = (if counterId \<ge> 0
                     then releasePerformanceCounter R2 (Col shim_tile) handleId counterId else R2);
               R4 = (if eventPortId \<ge> 0
                     then releaseStreamEventPort R3 (Col shim_tile) handleId eventPortId else R3)
           in (Throw (xrt_error (- EAGAIN)
                 ''Can't start profiling: Failed to request performance counter or stream switch event port resources.''),
               s\<lparr>resources := R4\<rparr>))"

definition start_profiling :: "hw \<Rightarrow> Aie \<Rightarrow> int \<Rightarrow> string \<Rightarrow> string \<Rightarrow> nat \<Rightarrow> int outcome \<times> Aie" where
  "start_profiling h s opt port1_name port2_name val =
     (if \<not> devInst s
      then (Throw (xrt_error (- EINVAL) ''Start profiling fails: AIE is not initialized''), s)
      else if opt \<noteq> IO_STREAM_RUNNING_EVENT_COUNT
      then (Throw (xrt_error (- EINVAL) ''Start profiling fails: unknown profiling option.''), s)
      else
        (case (find_gmio (gmios s) port1_name, find_plio (plios s) port1_name) of
           (None, None) \<Rightarrow>
             (Throw (xrt_error (- EINVAL)
                (''Can't start profiling: port name '' @ [CHR 0x27] @ port1_name @ ''' not found'')), s)
         | (Some gmio, Some plio) \<Rightarrow>
             (Throw (xrt_error (- EINVAL)
                (''Can't start profiling: ambiguous port name '' @ [CHR 0x27] @ port1_name @ [CHR 0x27])), s)
         | (Some gmio, None) \<Rightarrow>
             start_on_tile s opt (XAie_TileLoc (gmio_shim_col gmio) 0)
               (if gmio_type gmio = 1 then XAIE_STRMSW_MASTER else XAIE_STRMSW_SLAVE)
               (gmio_stream_id gmio mod 256)
         | (None, Some plio) \<Rightarrow>
             start_on_tile s opt (XAie_TileLoc (plio_shim_col plio) 0)
               (if plio_is_master plio then XAIE_STRMSW_MASTER else XAIE_STRMSW_SLAVE)
               (plio_stream_id plio mod 256)))"

text \<open>
  \<^verbatim>\<open>read_profiling\<close> indexes \<^verbatim>\<open>eventRecords[phdl]\<close> and \<^verbatim>\<open>acquiredResources[0]\<close> with
  no check. The counter is read into the low 32 bits of a 64-bit zero.
\<close>

definition read_profiling :: "hw \<Rightarrow> Aie \<Rightarrow> int \<Rightarrow> nat outcome \<times> Aie" where
  "read_profiling h s phdl =
     (if \<not> size_t_of_int phdl < length (eventRecords s) then (Undefined, s)
      else
        (case acquiredResources (eventRecords s ! size_t_of_int phdl) of
           [] \<Rightarrow> (Undefined, s)
         | acquiredResource # _ \<Rightarrow>
             let XAieModuleType = AIEResourceModuletoXAieModuleTypeMap (module acquiredResource)
             in if resource acquiredResource = performance_counter
                then
                  let c = PerfCounterGet (loc acquiredResource) XAieModuleType (res_id acquiredResource mod 256)
                  in (Ok (nat (h (trace s) c mod 2 ^ 32)), s\<lparr>trace := trace s @ [c]\<rparr>)
                else (Throw (xrt_error (- EAGAIN)
                        ''Can't read profiling: The acquired resources order does not match the profiling option.''), s)))"

text \<open>The loop of \<^verbatim>\<open>stop_profiling\<close> over the session's acquired resources.\<close>

fun stop_resources :: "int \<Rightarrow> AcquiredResource list \<Rightarrow> Resources \<Rightarrow> hw_call list \<Rightarrow> Resources \<times> hw_call list" where
  "stop_resources phdl [] R tr = (R, tr)"
| "stop_resources phdl (acquiredResource # rest) R tr =
     (let XAieModuleType = AIEResourceModuletoXAieModuleTypeMap (module acquiredResource)
      in if resource acquiredResource = performance_counter
         then
           let counterId = res_id acquiredResource mod 256;
               tr1 = tr @ [PerfCounterReset (loc acquiredResource) XAieModuleType counterId,
                           PerfCounterResetControlReset (loc acquiredResource) XAieModuleType counterId];
               R1 = (if module acquiredResource = pl_module
                     then releasePerformanceCounter R (Col (loc acquiredResource)) phdl (int counterId)
                     else if module acquiredResource = core_module
                     then releaseCorePerformanceCounter R (Col (loc acquiredResource))
                            (int (Row (loc acquiredResource)) - 1) phdl (int counterId)
                     else R)
           in stop_resources phdl rest R1 tr1
         else
           let eventPortId = res_id acquiredResource mod 256;
               tr1 = tr @ [EventSelectStrmPortReset (loc acquiredResource) eventPortId];
               R1 = (if module acquiredResource = pl_module
                     then releaseStreamEventPort R (Col (loc acquiredResource)) phdl (int eventPortId)
                     else R)
           in stop_resources phdl rest R1 tr1)"

definition stop_profiling :: "hw \<Rightarrow> Aie \<Rightarrow> int \<Rightarrow> unit outcome \<times> Aie" where
  "stop_profiling h s phdl =
     (if size_t_of_int phdl < length (eventRecords s)
         \<and> option (eventRecords s ! size_t_of_int phdl) \<ge> 0
      then
        let (R, tr) = stop_resources phdl (acquiredResources (eventRecords s ! size_t_of_int phdl))
                        (resources s) (trace s)
        in (Ok (), s\<lparr>resources := R, trace := tr\<rparr>)
      else (Ok (), s))"

section \<open>An example configuration\<close>

text \<open>
  One shim column with one GMIO port toward the array on channel 0 and one PLIO port, the
  channel's four descriptors idle as the constructor leaves them, two performance counters
  and two stream event ports free on every tile; an environment in which every export,
  attach, map and detach succeeds (buffer \<open>bo\<close> is exported as descriptor \<open>bo + 10\<close> and
  mapped at \<open>4096 * (bo + 10)\<close>) and the hardware reports every descriptor complete.
\<close>

definition example_bd :: "nat \<Rightarrow> BD" where
  "example_bd n = \<lparr>bd_num = n, buf_fd = 0, vaddr = 0, bd_size = 0\<rparr>"

definition example_pool :: Resources where
  "example_pool =
     \<lparr>shimTiles = (\<lambda>c. \<lparr>performanceCounters = [None, None], streamEventPorts = [None, None]\<rparr>),
      aieTiles = (\<lambda>c r. \<lparr>performanceCounters = [None, None], streamEventPorts = [None, None]\<rparr>)\<rparr>"

definition example_gmio :: gmio_type where
  "example_gmio =
     \<lparr>gmio_name = ''gm0'', gmio_type = 0, gmio_shim_col = 0, gmio_channel_number = 0,
      gmio_stream_id = 3, gmio_burst_len = 4\<rparr>"

definition example_plio :: plio_type where
  "example_plio =
     \<lparr>plio_name = ''pl0'', plio_logical_name = ''lp0'', plio_shim_col = 0, plio_stream_id = 1,
      plio_is_master = False\<rparr>"

definition example_aie :: Aie where
  "example_aie =
     \<lparr>devInst = True, fd = 3,
      gmios = [example_gmio],
      plios = [example_plio],
      shim_dma =
        [\<lparr>dma_chan =
            [\<lparr>idle_bds = [example_bd 0, example_bd 1, example_bd 2, example_bd 3], pend_bds = []\<rparr>,
             \<lparr>idle_bds = [], pend_bds = []\<rparr>,
             \<lparr>idle_bds = [], pend_bds = []\<rparr>,
             \<lparr>idle_bds = [], pend_bds = []\<rparr>],
          configured = True, maxqSize = 4\<rparr>],
      eventRecords = [],
      resources = example_pool,
      trace = []\<rparr>"

definition example_hw :: hw where
  "example_hw tr c =
     (case c of
        BOExport bo \<Rightarrow> int bo + 10
      | BOSize bo \<Rightarrow> 4096
      | Mmap n f \<Rightarrow> 4096 * f
      | PerfCounterGet l m i \<Rightarrow> 42
      | _ \<Rightarrow> 0)"

text \<open>The same environment, except that exporting a buffer fails with \<^verbatim>\<open>errno\<close> 24.\<close>

definition example_hw_no_export :: hw where
  "example_hw_no_export tr c = (case c of BOExport bo \<Rightarrow> - 1 | Errno \<Rightarrow> 24 | _ \<Rightarrow> 0)"

text \<open>The example instance with every performance counter of every tile taken.\<close>

definition example_aie_no_counter :: Aie where
  "example_aie_no_counter =
     example_aie\<lparr>resources :=
       \<lparr>shimTiles = (\<lambda>c. \<lparr>performanceCounters = [Some 7, Some 8], streamEventPorts = [None, None]\<rparr>),
        aieTiles = (\<lambda>c r. \<lparr>performanceCounters = [Some 7, Some 8], streamEventPorts = [None, None]\<rparr>)\<rparr>\<rparr>"

text \<open>The example instance with a PLIO port that has the GMIO port's name.\<close>

definition example_aie_ambiguous :: Aie where
  "example_aie_ambiguous = example_aie\<lparr>plios := [example_plio\<lparr>plio_name := ''gm0''\<rparr>]\<rparr>"

text \<open>
  The example instance with two session records written by hand: the first lists its
  performance counter first, the second its event port first.
\<close>

definition example_aie_sessions :: Aie where
  "example_aie_sessions =
     example_aie\<lparr>eventRecords :=
       [\<lparr>option = 3,
         acquiredResources =
           [\<lparr>loc = XAie_TileLoc 0 0, module = pl_module, resource = performance_counter, res_id = 0\<rparr>,
            \<lparr>loc = XAie_TileLoc 0 0, module = pl_module, resource = stream_switch_event_port, res_id = 0\<rparr>]\<rparr>,
        \<lparr>option = 3,
         acquiredResources =
           [\<lparr>loc = XAie_TileLoc 0 0, module = pl_module, resource = stream_switch_event_port, res_id = 1\<rparr>,
            \<lparr>loc = XAie_TileLoc 0 0, module = pl_module, resource = performance_counter, res_id = 1\<rparr>]\<rparr>]\<rparr>"

text \<open>
  The example instance after two non-blocking submissions on the GMIO port, buffer 7 and
  then buffer 8.
\<close>

definition example_aie_two_pending :: Aie where
  "example_aie_two_pending =
     snd (the (sync_bo_nb 0 example_hw
       (snd (the (sync_bo_nb 0 example_hw example_aie 7 ''gm0'' XCL_BO_SYNC_BO_GMIO_TO_AIE 256 0)))
       8 ''gm0'' XCL_BO_SYNC_BO_GMIO_TO_AIE 256 0))"

text \<open>
  The example instance after four non-blocking submissions on the GMIO port, buffers 7 to
  10: the channel's idle queue is empty and all four descriptors are pending. And the
  example environment, except that the hardware reports two descriptors still pending.
\<close>

definition example_aie_full :: Aie where
  "example_aie_full =
     snd (the (sync_bo_nb 0 example_hw
       (snd (the (sync_bo_nb 0 example_hw example_aie_two_pending
                    9 ''gm0'' XCL_BO_SYNC_BO_GMIO_TO_AIE 256 0)))
       10 ''gm0'' XCL_BO_SYNC_BO_GMIO_TO_AIE 256 0))"

definition example_hw_two_left :: hw where
  "example_hw_two_left tr c =
     (case c of DmaGetPendingBdCount l p d \<Rightarrow> 2 | _ \<Rightarrow> example_hw tr c)"

text \<open>
  A profiling history on the example instance: session 0 is started on the GMIO port and
  stopped; then session 1 is started on the PLIO port.
\<close>

definition example_started :: Aie where
  "example_started = snd (start_profiling example_hw example_aie IO_STREAM_RUNNING_EVENT_COUNT ''gm0'' [] 0)"

definition example_stopped :: Aie where
  "example_stopped = snd (stop_profiling example_hw example_started 0)"

definition example_restarted :: Aie where
  "example_restarted = snd (start_profiling example_hw example_stopped IO_STREAM_RUNNING_EVENT_COUNT ''pl0'' [] 0)"

section \<open>Observations used in the statements\<close>

definition chan_at :: "Aie \<Rightarrow> nat \<Rightarrow> nat \<Rightarrow> DMAChannel" where
  "chan_at s c chan = dma_chan (shim_dma s ! c) ! chan"

text \<open>The slots of a channel: its idle and its pending descriptors together.\<close>

definition slots :: "DMAChannel \<Rightarrow> nat" where
  "slots ch = length (idle_bds ch) + length (pend_bds ch)"

text \<open>The number of idle and of pending descriptors of a channel.\<close>

definition chan_sizes :: "Aie \<Rightarrow> nat \<Rightarrow> nat \<Rightarrow> nat \<times> nat" where
  "chan_sizes s c chan = (length (idle_bds (chan_at s c chan)), length (pend_bds (chan_at s c chan)))"

text \<open>
  What draining does to one descriptor: the calls that release its host-memory binding,
  and the descriptor as it returns to the idle queue.
\<close>

definition cleared :: "BD \<Rightarrow> BD" where
  "cleared bd = bd\<lparr>vaddr := 0\<rparr>"

definition unbind_calls :: "int \<Rightarrow> BD \<Rightarrow> hw_call list" where
  "unbind_calls f bd = [Munmap (vaddr bd) (bd_size bd), IoctlDetachDmabuf f (buf_fd bd)]"

fun is_unbind :: "hw_call \<Rightarrow> bool" where
  "is_unbind (Munmap a n) = True"
| "is_unbind (IoctlDetachDmabuf f b) = True"
| "is_unbind c = False"

text \<open>The releases of host-memory bindings in a history, in the order they were made.\<close>

definition unbinds :: "hw_call list \<Rightarrow> hw_call list" where
  "unbinds tr = filter is_unbind tr"

text \<open>
  Of an operation that has returned: how it ended, the descriptor numbers pending on a
  channel and the sizes of the channel's queues afterwards.
\<close>

definition outcome_of :: "('a outcome \<times> Aie) option \<Rightarrow> 'a outcome option" where
  "outcome_of x = map_option fst x"

definition pending_nums :: "('a outcome \<times> Aie) option \<Rightarrow> nat \<Rightarrow> nat \<Rightarrow> nat list option" where
  "pending_nums x c chan =
     (case x of Some (r, s) \<Rightarrow> Some (map bd_num (pend_bds (chan_at s c chan))) | None \<Rightarrow> None)"

definition sizes_after :: "('a outcome \<times> Aie) option \<Rightarrow> nat \<Rightarrow> nat \<Rightarrow> (nat \<times> nat) option" where
  "sizes_after x c chan = (case x of Some (r, s) \<Rightarrow> Some (chan_sizes s c chan) | None \<Rightarrow> None)"

definition unbinds_after :: "('a outcome \<times> Aie) option \<Rightarrow> hw_call list option" where
  "unbinds_after x = (case x of Some (r, s) \<Rightarrow> Some (unbinds (trace s)) | None \<Rightarrow> None)"

text \<open>The error an operation raised, if it has returned by raising one.\<close>

definition failure :: "('a outcome \<times> Aie) option \<Rightarrow> error option" where
  "failure x = (case x of Some (Throw e, s) \<Rightarrow> Some e | _ \<Rightarrow> None)"

text \<open>
  The tile \<^verbatim>\<open>start_profiling\<close> monitors for a port name: that of the GMIO or PLIO port of
  that name, when exactly one of the two tables has it.
\<close>

definition monitored_tile :: "Aie \<Rightarrow> string \<Rightarrow> XAie_LocType option" where
  "monitored_tile s n =
     (case (find_gmio (gmios s) n, find_plio (plios s) n) of
        (Some gmio, None) \<Rightarrow> Some (XAie_TileLoc (gmio_shim_col gmio) 0)
      | (None, Some plio) \<Rightarrow> Some (XAie_TileLoc (plio_shim_col plio) 0)
      | _ \<Rightarrow> None)"

section \<open>Unfolding the definitions on concrete inputs\<close>

lemmas example_defs =
  example_aie_def example_hw_def example_gmio_def example_plio_def example_bd_def example_pool_def
  example_hw_no_export_def example_aie_no_counter_def example_aie_ambiguous_def
  example_aie_sessions_def example_hw_two_left_def

lemmas dma_defs =
  sync_bo_nb_def sync_bo_def wait_gmio_def wait_port_def wait_sync_bo_def submit_sync_bo_def
  submit_bd_def find_gmio_def set_chan_def gmdir_of_def prepare_bd_def clear_bd_def drain_front_def
  XAie_TileLoc_def CONVERT_LCHANL_TO_PCHANL_def XAIEDMA_SHIM_TXFER_LEN32_MASK_def
  XRT_NULL_BO_EXPORT_def EINVAL_def EAGAIN_def XAIE_OK_def chan_at_def chan_sizes_def
  outcome_of_def pending_nums_def sizes_after_def failure_def

lemmas profiling_defs =
  start_profiling_def start_on_tile_def read_profiling_def stop_profiling_def find_gmio_def
  find_plio_def requestStreamEventPort_def requestPerformanceCounter_def
  releaseStreamEventPort_def releasePerformanceCounter_def releaseCorePerformanceCounter_def
  request_slot_def release_slot_def int_of_size_t_def size_t_of_int_def
  IO_STREAM_RUNNING_EVENT_COUNT_def AIEResourceModuletoXAieModuleTypeMap_def
  XAie_TileLoc_def EINVAL_def EAGAIN_def

section \<open>The alignment check of a submission\<close>

text \<open>
  As the source writes it, the alignment test looks at the lowest bit of the size only: it
  raises exactly for odd sizes, and then nothing has been touched.
\<close>

lemma alignment_test_is_parity:
  "((sz::nat) AND (if XAIEDMA_SHIM_TXFER_LEN32_MASK \<noteq> 0 then 1 else 0)) \<noteq> 0 \<longleftrightarrow> odd sz"
  by (simp add: XAIEDMA_SHIM_TXFER_LEN32_MASK_def and_one_eq odd_iff_mod_2_eq_one)

lemma submit_sync_bo_odd_size:
  assumes "odd sz" and "dir = XCL_BO_SYNC_BO_GMIO_TO_AIE \<and> gmio_type g = 0
                        \<or> dir = XCL_BO_SYNC_BO_AIE_TO_GMIO \<and> gmio_type g = 1"
  shows "submit_sync_bo fuel h s bo g dir sz off =
           Some (Throw (xrt_error (- EINVAL) ''Sync AIE Bo fails: size is not 32 bits aligned.''), s)"
  using assms alignment_test_is_parity [of sz] by (auto simp: submit_sync_bo_def)

text \<open>
  C1. Claim: a submission whose byte length is not aligned to the transfer-length mask
  fails with InvalidArgument before any descriptor is acquired or any memory is bound. The
  code does otherwise: a length of 2 bytes has a bit of the mask set, yet the non-blocking
  submission of 2 bytes on the example instance returns normally and leaves descriptor 0
  bound and pending.
\<close>

theorem C1_misaligned_size_is_submitted:
  "(2 AND XAIEDMA_SHIM_TXFER_LEN32_MASK) \<noteq> 0
   \<and> outcome_of (sync_bo_nb 0 example_hw example_aie 7 ''gm0'' XCL_BO_SYNC_BO_GMIO_TO_AIE 2 0)
       = Some (Ok ())
   \<and> pending_nums (sync_bo_nb 0 example_hw example_aie 7 ''gm0'' XCL_BO_SYNC_BO_GMIO_TO_AIE 2 0) 0 0
       = Some [0]"
  by (simp add: example_defs dma_defs Let_def)

section \<open>Draining in submission order\<close>

lemma clear_bd_calls:
  "clear_bd h f bd tr = (r, bd', tr') \<Longrightarrow> tr' = tr @ unbind_calls f bd \<and> bd' = cleared bd"
  by (auto simp: clear_bd_def unbind_calls_def cleared_def Let_def split: if_splits)

lemma drain_front_Ok:
  assumes "drain_front h f ch tr = (Ok u, ch', tr')"
  shows "\<exists>bd rest. pend_bds ch = bd # rest
           \<and> ch' = ch\<lparr>pend_bds := rest, idle_bds := idle_bds ch @ [cleared bd]\<rparr>
           \<and> tr' = tr @ unbind_calls f bd"
proof (cases "pend_bds ch")
  case Nil
  with assms show ?thesis by (simp add: drain_front_def)
next
  case (Cons bd rest)
  obtain r b t where c: "clear_bd h f bd tr = (r, b, t)" by (cases "clear_bd h f bd tr")
  from clear_bd_calls [OF c] have t: "t = tr @ unbind_calls f bd" and b: "b = cleared bd" by simp_all
  from assms Cons c t b show ?thesis
    by (cases r) (auto simp: drain_front_def)
qed

lemma drain_front_other:
  assumes "drain_front h f ch tr = (r, ch', tr')" and "\<forall>u. r \<noteq> Ok u"
  shows "ch' = ch \<and> (tr' = tr \<and> pend_bds ch = [] \<or> (\<exists>bd rest. pend_bds ch = bd # rest \<and> tr' = tr @ unbind_calls f bd))"
proof (cases "pend_bds ch")
  case Nil
  with assms show ?thesis by (simp add: drain_front_def)
next
  case (Cons bd rest)
  obtain r0 b t where c: "clear_bd h f bd tr = (r0, b, t)" by (cases "clear_bd h f bd tr")
  from clear_bd_calls [OF c] have t: "t = tr @ unbind_calls f bd" by simp
  from assms Cons c t show ?thesis
    by (cases r0) (auto simp: drain_front_def)
qed

lemma drain_completed_Ok:
  "drain_completed h f n ch tr = (Ok u, ch', tr') \<Longrightarrow>
     n \<le> length (pend_bds ch)
     \<and> pend_bds ch' = drop n (pend_bds ch)
     \<and> idle_bds ch' = idle_bds ch @ map cleared (take n (pend_bds ch))
     \<and> tr' = tr @ concat (map (unbind_calls f) (take n (pend_bds ch)))"
proof (induction n arbitrary: ch tr)
  case 0
  then show ?case by simp
next
  case (Suc n)
  obtain r ch1 tr1 where d: "drain_front h f ch tr = (r, ch1, tr1)"
    by (cases "drain_front h f ch tr")
  show ?case
  proof (cases r)
    case (Ok x)
    from drain_front_Ok [OF d [unfolded Ok]] obtain bd rest where
      p: "pend_bds ch = bd # rest"
      and c1: "ch1 = ch\<lparr>pend_bds := rest, idle_bds := idle_bds ch @ [cleared bd]\<rparr>"
      and t1: "tr1 = tr @ unbind_calls f bd" by blast
    from Suc.prems d Ok have "drain_completed h f n ch1 tr1 = (Ok u, ch', tr')" by simp
    from Suc.IH [OF this] p c1 t1 show ?thesis by simp
  next
    case (Throw e)
    with Suc.prems d show ?thesis by simp
  next
    case Undefined
    with Suc.prems d show ?thesis by simp
  qed
qed

lemma drain_pending_Ok:
  "drain_pending h f ch tr = (Ok u, ch', tr') \<Longrightarrow>
     pend_bds ch' = []
     \<and> idle_bds ch' = idle_bds ch @ map cleared (pend_bds ch)
     \<and> tr' = tr @ concat (map (unbind_calls f) (pend_bds ch))"
proof (induction h f ch tr rule: drain_pending.induct)
  case (1 h f ch tr)
  show ?case
  proof (cases "pend_bds ch = []")
    case True
    with "1.prems" show ?thesis by simp
  next
    case False
    obtain r ch1 tr1 where d: "drain_front h f ch tr = (r, ch1, tr1)"
      by (cases "drain_front h f ch tr")
    show ?thesis
    proof (cases r)
      case (Ok x)
      from drain_front_Ok [OF d [unfolded Ok]] obtain bd rest where
        p: "pend_bds ch = bd # rest"
        and c1: "ch1 = ch\<lparr>pend_bds := rest, idle_bds := idle_bds ch @ [cleared bd]\<rparr>"
        and t1: "tr1 = tr @ unbind_calls f bd" by blast
      from "1.prems" False d Ok have run: "drain_pending h f ch1 tr1 = (Ok u, ch', tr')" by simp
      have "pend_bds ch' = [] \<and> idle_bds ch' = idle_bds ch1 @ map cleared (pend_bds ch1)
            \<and> tr' = tr1 @ concat (map (unbind_calls f) (pend_bds ch1))"
        using "1.IH" [OF False d [unfolded Ok, symmetric] refl refl run] .
      with p c1 t1 show ?thesis by simp
    next
      case (Throw e)
      with "1.prems" False d show ?thesis by simp
    next
      case Undefined
      with "1.prems" False d show ?thesis by simp
    qed
  qed
qed

lemma unbinds_append: "unbinds (a @ b) = unbinds a @ unbinds b"
  by (simp add: unbinds_def)

lemma unbinds_unbind_calls: "unbinds (concat (map (unbind_calls f) bds)) = concat (map (unbind_calls f) bds)"
  by (induction bds) (simp_all add: unbinds_def unbind_calls_def)

lemma drain_completed_prefix:
  "drain_completed h f n ch tr = (r, ch', tr') \<Longrightarrow>
     \<exists>k \<le> length (pend_bds ch). tr' = tr @ concat (map (unbind_calls f) (take k (pend_bds ch)))"
proof (induction n arbitrary: ch tr)
  case 0
  then show ?case by auto
next
  case (Suc n)
  obtain r1 ch1 tr1 where d: "drain_front h f ch tr = (r1, ch1, tr1)"
    by (cases "drain_front h f ch tr")
  show ?case
  proof (cases "\<exists>x. r1 = Ok x")
    case True
    then have ok: "r1 = Ok ()" by auto
    from drain_front_Ok [OF d [unfolded ok]] obtain bd rest where
      p: "pend_bds ch = bd # rest"
      and c1: "ch1 = ch\<lparr>pend_bds := rest, idle_bds := idle_bds ch @ [cleared bd]\<rparr>"
      and t1: "tr1 = tr @ unbind_calls f bd" by blast
    from Suc.prems d ok have "drain_completed h f n ch1 tr1 = (r, ch', tr')" by simp
    from Suc.IH [OF this] obtain k where
      k: "k \<le> length (pend_bds ch1)" "tr' = tr1 @ concat (map (unbind_calls f) (take k (pend_bds ch1)))"
      by blast
    have "Suc k \<le> length (pend_bds ch)" using k(1) p c1 by simp
    moreover have "tr' = tr @ concat (map (unbind_calls f) (take (Suc k) (pend_bds ch)))"
      using k(2) p c1 t1 by simp
    ultimately show ?thesis by blast
  next
    case False
    then have no: "\<forall>u. r1 \<noteq> Ok u" by simp
    from Suc.prems d no have e: "tr' = tr1" by (cases r1) auto
    from drain_front_other [OF d no]
    have "tr1 = tr \<and> pend_bds ch = [] \<or> (\<exists>bd rest. pend_bds ch = bd # rest \<and> tr1 = tr @ unbind_calls f bd)"
      by simp
    then show ?thesis
    proof
      assume "tr1 = tr \<and> pend_bds ch = []"
      with e show ?thesis by auto
    next
      assume "\<exists>bd rest. pend_bds ch = bd # rest \<and> tr1 = tr @ unbind_calls f bd"
      then obtain bd rest where p: "pend_bds ch = bd # rest" and t: "tr1 = tr @ unbind_calls f bd" by blast
      have "Suc 0 \<le> length (pend_bds ch)" using p by simp
      moreover have "tr' = tr @ concat (map (unbind_calls f) (take (Suc 0) (pend_bds ch)))"
        using e t p by simp
      ultimately show ?thesis by blast
    qed
  qed
qed

lemma drain_pending_prefix:
  "drain_pending h f ch tr = (r, ch', tr') \<Longrightarrow>
     \<exists>k \<le> length (pend_bds ch). tr' = tr @ concat (map (unbind_calls f) (take k (pend_bds ch)))"
proof (induction h f ch tr rule: drain_pending.induct)
  case (1 h f ch tr)
  show ?case
  proof (cases "pend_bds ch = []")
    case True
    with "1.prems" show ?thesis by auto
  next
    case False
    obtain r1 ch1 tr1 where d: "drain_front h f ch tr = (r1, ch1, tr1)"
      by (cases "drain_front h f ch tr")
    show ?thesis
    proof (cases "\<exists>x. r1 = Ok x")
      case True
      then have ok: "r1 = Ok ()" by auto
      from drain_front_Ok [OF d [unfolded ok]] obtain bd rest where
        p: "pend_bds ch = bd # rest"
        and c1: "ch1 = ch\<lparr>pend_bds := rest, idle_bds := idle_bds ch @ [cleared bd]\<rparr>"
        and t1: "tr1 = tr @ unbind_calls f bd" by blast
      from "1.prems" False d ok have run: "drain_pending h f ch1 tr1 = (r, ch', tr')" by simp
      from "1.IH" [OF False d [unfolded ok, symmetric] refl refl run] obtain k where
        k: "k \<le> length (pend_bds ch1)" "tr' = tr1 @ concat (map (unbind_calls f) (take k (pend_bds ch1)))"
        by blast
      have "Suc k \<le> length (pend_bds ch)" using k(1) p c1 by simp
      moreover have "tr' = tr @ concat (map (unbind_calls f) (take (Suc k) (pend_bds ch)))"
        using k(2) p c1 t1 by simp
      ultimately show ?thesis by blast
    next
      case False
      then have no: "\<forall>u. r1 \<noteq> Ok u" by simp
      from "1.prems" \<open>pend_bds ch \<noteq> []\<close> d no have e: "tr' = tr1" by (cases r1) auto
      from drain_front_other [OF d no] \<open>pend_bds ch \<noteq> []\<close>
      obtain bd rest where p: "pend_bds ch = bd # rest" and t: "tr1 = tr @ unbind_calls f bd" by blast
      have "Suc 0 \<le> length (pend_bds ch)" using p by simp
      moreover have "tr' = tr @ concat (map (unbind_calls f) (take (Suc 0) (pend_bds ch)))"
        using e t p by simp
      ultimately show ?thesis by blast
    qed
  qed
qed

lemma find_free_bd_fifo:
  "find_free_bd fuel h f tile pchan gmdir maxq ch tr = Some (r, ch', tr') \<Longrightarrow>
     \<exists>k \<le> length (pend_bds ch).
        unbinds tr' = unbinds tr @ concat (map (unbind_calls f) (take k (pend_bds ch)))
        \<and> (r = Ok () \<longrightarrow>
             pend_bds ch' = drop k (pend_bds ch)
             \<and> idle_bds ch' = idle_bds ch @ map cleared (take k (pend_bds ch))
             \<and> idle_bds ch' \<noteq> [])"
proof (induction fuel arbitrary: ch tr)
  case 0
  then show ?case by (auto split: if_splits)
next
  case (Suc fuel)
  show ?case
  proof (cases "idle_bds ch \<noteq> []")
    case True
    with Suc.prems show ?thesis by auto
  next
    case False
    define c where "c = DmaGetPendingBdCount tile pchan gmdir"
    define n where "n = nat (int maxq - h tr c mod 256)"
    obtain r1 ch1 tr1 where d: "drain_completed h f n ch (tr @ [c]) = (r1, ch1, tr1)"
      by (cases "drain_completed h f n ch (tr @ [c])")
    have uc: "\<And>xs. unbinds (c # xs) = unbinds xs" by (simp add: unbinds_def c_def)
    show ?thesis
    proof (cases "r1 = Ok ()")
      case True
      from drain_completed_Ok [OF d [unfolded True]]
      have n: "n \<le> length (pend_bds ch)"
        and p1: "pend_bds ch1 = drop n (pend_bds ch)"
        and i1: "idle_bds ch1 = idle_bds ch @ map cleared (take n (pend_bds ch))"
        and t1: "tr1 = (tr @ [c]) @ concat (map (unbind_calls f) (take n (pend_bds ch)))"
        by simp_all
      from Suc.prems False d True
      have run: "find_free_bd fuel h f tile pchan gmdir maxq ch1 tr1 = Some (r, ch', tr')"
        by (simp add: Let_def c_def n_def)
      from Suc.IH [OF run] obtain k where
        k: "k \<le> length (pend_bds ch1)"
        and u: "unbinds tr' = unbinds tr1 @ concat (map (unbind_calls f) (take k (pend_bds ch1)))"
        and o: "r = Ok () \<longrightarrow> pend_bds ch' = drop k (pend_bds ch1)
                 \<and> idle_bds ch' = idle_bds ch1 @ map cleared (take k (pend_bds ch1))
                 \<and> idle_bds ch' \<noteq> []"
        by blast
      have tk: "take (n + k) (pend_bds ch) = take n (pend_bds ch) @ take k (drop n (pend_bds ch))"
        by (simp add: take_add)
      have 1: "n + k \<le> length (pend_bds ch)" using n k p1 by simp
      have 2: "unbinds tr' = unbinds tr @ concat (map (unbind_calls f) (take (n + k) (pend_bds ch)))"
        using u t1 p1 uc by (simp add: tk unbinds_append unbinds_unbind_calls)
      have 3: "r = Ok () \<longrightarrow> pend_bds ch' = drop (n + k) (pend_bds ch)
                 \<and> idle_bds ch' = idle_bds ch @ map cleared (take (n + k) (pend_bds ch))
                 \<and> idle_bds ch' \<noteq> []"
      proof
        assume "r = Ok ()"
        with o have a: "pend_bds ch' = drop k (pend_bds ch1)"
          and b: "idle_bds ch' = idle_bds ch1 @ map cleared (take k (pend_bds ch1))"
          and ne: "idle_bds ch' \<noteq> []" by blast+
        have "pend_bds ch' = drop (n + k) (pend_bds ch)"
          using a p1 by (simp add: add.commute)
        moreover have "idle_bds ch' = idle_bds ch @ map cleared (take (n + k) (pend_bds ch))"
          using b p1 i1 by (simp only: tk map_append append_assoc)
        ultimately show "pend_bds ch' = drop (n + k) (pend_bds ch)
                 \<and> idle_bds ch' = idle_bds ch @ map cleared (take (n + k) (pend_bds ch))
                 \<and> idle_bds ch' \<noteq> []"
          using ne by simp
      qed
      from 1 2 3 show ?thesis by blast
    next
      case no: False
      from Suc.prems False d no have e: "r = r1" "tr' = tr1"
        by (cases r1; simp add: Let_def c_def n_def)+
      from drain_completed_prefix [OF d] obtain k where
        k: "k \<le> length (pend_bds ch)"
        and t: "tr1 = (tr @ [c]) @ concat (map (unbind_calls f) (take k (pend_bds ch)))" by blast
      have "unbinds tr' = unbinds tr @ concat (map (unbind_calls f) (take k (pend_bds ch)))"
        using e t uc by (simp add: unbinds_append unbinds_unbind_calls)
      with k e no show ?thesis by blast
    qed
  qed
qed

lemma prepare_bd_unbinds: "prepare_bd h f bd bo tr = (r, bd', tr') \<Longrightarrow> unbinds tr' = unbinds tr"
  by (auto simp: prepare_bd_def Let_def unbinds_def split: if_splits)

lemma wait_for_done_unbinds:
  "wait_for_done fuel h tile pchan gmdir t tr = Some tr' \<Longrightarrow> unbinds tr' = unbinds tr"
proof (induction fuel arbitrary: tr)
  case 0
  then show ?case by simp
next
  case (Suc fuel)
  show ?case
  proof (cases "h tr (DmaWaitForDone tile pchan gmdir t) \<noteq> XAIE_OK")
    case True
    with Suc.prems have "wait_for_done fuel h tile pchan gmdir t (tr @ [DmaWaitForDone tile pchan gmdir t]) = Some tr'"
      by (simp add: Let_def)
    from Suc.IH [OF this] show ?thesis by (simp add: unbinds_def)
  next
    case False
    with Suc.prems show ?thesis by (auto simp: Let_def unbinds_def)
  qed
qed

lemma chan_at_set_chan:
  "c < length (shim_dma s) \<Longrightarrow> chan < length (dma_chan (shim_dma s ! c)) \<Longrightarrow>
     chan_at (set_chan s c chan ch tr) c chan = ch"
  by (simp add: chan_at_def set_chan_def)

lemma trace_set_chan: "trace (set_chan s c chan ch tr) = tr"
  by (simp add: set_chan_def)

lemma submit_bd_fifo:
  assumes run: "submit_bd fuel h s bo g sz off = Some (r, s')"
  shows "\<exists>k \<le> length (pend_bds (chan_at s (gmio_shim_col g) (gmio_channel_number g))).
           unbinds (trace s') = unbinds (trace s) @
             concat (map (unbind_calls (fd s)) (take k (pend_bds (chan_at s (gmio_shim_col g) (gmio_channel_number g)))))
           \<and> (r = Ok () \<longrightarrow>
                (\<exists>bd. pend_bds (chan_at s' (gmio_shim_col g) (gmio_channel_number g)) =
                   drop k (pend_bds (chan_at s (gmio_shim_col g) (gmio_channel_number g))) @ [bd]))"
proof -
  let ?c = "gmio_shim_col g" and ?chan = "gmio_channel_number g"
  let ?pend = "pend_bds (chan_at s ?c ?chan)"
  show ?thesis
  proof (cases "?c < length (shim_dma s) \<and> ?chan < length (dma_chan (shim_dma s ! ?c))")
    case False
    with run have "s' = s \<and> r \<noteq> Ok ()"
      by (auto simp: submit_bd_def Let_def split: if_splits)
    then show ?thesis by auto
  next
    case True
    then have c: "?c < length (shim_dma s)" and ch: "?chan < length (dma_chan (shim_dma s ! ?c))"
      by blast+
    define F where "F = find_free_bd fuel h (fd s) (XAie_TileLoc ?c 0) (CONVERT_LCHANL_TO_PCHANL ?chan)
        (gmdir_of g) (maxqSize (shim_dma s ! ?c)) (chan_at s ?c ?chan) (trace s)"
    from run c ch have body: "(case F of
                None \<Rightarrow> None
              | Some (Ok _, ch, tr) \<Rightarrow>
                  (case idle_bds ch of
                     [] \<Rightarrow> Some (Undefined, set_chan s ?c ?chan ch tr)
                   | bd # rest \<Rightarrow>
                       let ch1 = ch\<lparr>idle_bds := rest\<rparr>
                       in (case prepare_bd h (fd s) bd bo tr of
                             (Ok _, bd1, tr1) \<Rightarrow>
                               let tr2 = tr1 @
                                     [DmaSetAddrLen (vaddr bd1 + int off) sz,
                                      DmaSetLock (bd_num bd1) (bd_num bd1),
                                      DmaEnableBd,
                                      DmaWriteBd (XAie_TileLoc ?c 0) (bd_num bd1),
                                      DmaChannelPushBdToQueue (XAie_TileLoc ?c 0) (CONVERT_LCHANL_TO_PCHANL ?chan) (gmdir_of g) (bd_num bd1)];
                                   ch2 = ch1\<lparr>pend_bds := pend_bds ch1 @ [bd1]\<rparr>
                               in Some (Ok (), set_chan s ?c ?chan ch2 tr2)
                           | (Throw e, _, tr1) \<Rightarrow> Some (Throw e, set_chan s ?c ?chan ch1 tr1)
                           | (Undefined, _, tr1) \<Rightarrow> Some (Undefined, set_chan s ?c ?chan ch1 tr1)))
              | Some (Throw e, ch, tr) \<Rightarrow> Some (Throw e, set_chan s ?c ?chan ch tr)
              | Some (Undefined, ch, tr) \<Rightarrow> Some (Undefined, set_chan s ?c ?chan ch tr)) = Some (r, s')"
      by (simp add: submit_bd_def Let_def F_def chan_at_def)
    then obtain r0 ch0 tr0 where F: "F = Some (r0, ch0, tr0)"
      by (cases F) auto
    from find_free_bd_fifo [OF F [unfolded F_def]] obtain k where
      k: "k \<le> length ?pend"
      and u: "unbinds tr0 = unbinds (trace s) @ concat (map (unbind_calls (fd s)) (take k ?pend))"
      and o: "r0 = Ok () \<longrightarrow> pend_bds ch0 = drop k ?pend
                \<and> idle_bds ch0 = idle_bds (chan_at s ?c ?chan) @ map cleared (take k ?pend)
                \<and> idle_bds ch0 \<noteq> []"
      by blast
    show ?thesis
    proof (cases "r0 = Ok ()")
      case no: False
      with body F have "trace s' = tr0 \<and> r \<noteq> Ok ()"
        by (cases r0) (auto simp: trace_set_chan)
      with k u show ?thesis by auto
    next
      case True
      with o obtain bd rest where i0: "idle_bds ch0 = bd # rest" and p0: "pend_bds ch0 = drop k ?pend"
        by (cases "idle_bds ch0") auto
      obtain r1 bd1 tr1 where P: "prepare_bd h (fd s) bd bo tr0 = (r1, bd1, tr1)"
        by (cases "prepare_bd h (fd s) bd bo tr0")
      from prepare_bd_unbinds [OF P] have u1: "unbinds tr1 = unbinds tr0" .
      show ?thesis
      proof (cases "r1 = Ok ()")
        case no: False
        with body F True i0 P have "trace s' = tr1 \<and> r \<noteq> Ok ()"
          by (cases r1) (auto simp: trace_set_chan Let_def)
        with k u u1 show ?thesis by auto
      next
        case ok: True
        let ?tr2 = "tr1 @ [DmaSetAddrLen (vaddr bd1 + int off) sz,
                                      DmaSetLock (bd_num bd1) (bd_num bd1),
                                      DmaEnableBd,
                                      DmaWriteBd (XAie_TileLoc ?c 0) (bd_num bd1),
                                      DmaChannelPushBdToQueue (XAie_TileLoc ?c 0) (CONVERT_LCHANL_TO_PCHANL ?chan) (gmdir_of g) (bd_num bd1)]"
        from body F True i0 P ok
        have s': "s' = set_chan s ?c ?chan (ch0\<lparr>idle_bds := rest, pend_bds := pend_bds ch0 @ [bd1]\<rparr>) ?tr2"
          and r: "r = Ok ()"
          by (auto simp: Let_def)
        have "unbinds (trace s') = unbinds tr1"
          by (simp add: s' trace_set_chan unbinds_def)
        moreover have "pend_bds (chan_at s' ?c ?chan) = drop k ?pend @ [bd1]"
          by (simp add: s' chan_at_set_chan [OF c ch] p0)
        ultimately show ?thesis using k u u1 by auto
      qed
    qed
  qed
qed

lemma submit_sync_bo_cases:
  "submit_sync_bo fuel h s bo g dir sz off = Some (r, s') \<Longrightarrow>
     (s' = s \<and> r \<noteq> Ok ()) \<or> submit_bd fuel h s bo g sz off = Some (r, s')"
  by (auto simp: submit_sync_bo_def split: if_splits)

lemma submit_sync_bo_fifo:
  assumes run: "submit_sync_bo fuel h s bo g dir sz off = Some (r, s')"
  shows "\<exists>k \<le> length (pend_bds (chan_at s (gmio_shim_col g) (gmio_channel_number g))).
           unbinds (trace s') = unbinds (trace s) @
             concat (map (unbind_calls (fd s)) (take k (pend_bds (chan_at s (gmio_shim_col g) (gmio_channel_number g)))))
           \<and> (r = Ok () \<longrightarrow>
                (\<exists>bd. pend_bds (chan_at s' (gmio_shim_col g) (gmio_channel_number g)) =
                   drop k (pend_bds (chan_at s (gmio_shim_col g) (gmio_channel_number g))) @ [bd]))"
  using submit_sync_bo_cases [OF run]
proof
  assume "s' = s \<and> r \<noteq> Ok ()"
  then show ?thesis by auto
next
  assume "submit_bd fuel h s bo g sz off = Some (r, s')"
  then show ?thesis by (rule submit_bd_fifo)
qed

lemma wait_sync_bo_fifo:
  assumes run: "wait_sync_bo fuel h s c chan tile gmdir t = Some (r, s')"
    and c: "c < length (shim_dma s)"
  shows "(\<exists>k \<le> length (pend_bds (chan_at s c chan)).
            unbinds (trace s') = unbinds (trace s) @
              concat (map (unbind_calls (fd s)) (take k (pend_bds (chan_at s c chan)))))
       \<and> (r = Ok () \<longrightarrow>
            pend_bds (chan_at s' c chan) = []
            \<and> idle_bds (chan_at s' c chan) =
                idle_bds (chan_at s c chan) @ map cleared (pend_bds (chan_at s c chan))
            \<and> unbinds (trace s') = unbinds (trace s) @
                concat (map (unbind_calls (fd s)) (pend_bds (chan_at s c chan))))"
proof -
  from run obtain tr0 where W: "wait_for_done fuel h tile (CONVERT_LCHANL_TO_PCHANL chan) gmdir t (trace s) = Some tr0"
    by (auto simp: wait_sync_bo_def split: option.splits)
  from wait_for_done_unbinds [OF W] have u0: "unbinds tr0 = unbinds (trace s)" .
  show ?thesis
  proof (cases "chan < length (dma_chan (shim_dma s ! c))")
    case False
    with run W have "r = Undefined \<and> trace s' = tr0"
      by (auto simp: wait_sync_bo_def)
    with u0 show ?thesis by auto
  next
    case True
    obtain r1 ch1 tr1 where D: "drain_pending h (fd s) (chan_at s c chan) tr0 = (r1, ch1, tr1)"
      by (cases "drain_pending h (fd s) (chan_at s c chan) tr0")
    from run W True D have s': "s' = set_chan s c chan ch1 tr1" and r: "r = r1"
      by (auto simp: wait_sync_bo_def chan_at_def)
    from drain_pending_prefix [OF D] obtain k where
      k: "k \<le> length (pend_bds (chan_at s c chan))"
      and t: "tr1 = tr0 @ concat (map (unbind_calls (fd s)) (take k (pend_bds (chan_at s c chan))))"
      by blast
    have 1: "unbinds (trace s') = unbinds (trace s) @
              concat (map (unbind_calls (fd s)) (take k (pend_bds (chan_at s c chan))))"
      using t u0 by (simp add: s' trace_set_chan unbinds_append unbinds_unbind_calls)
    have 2: "r = Ok () \<longrightarrow>
            pend_bds (chan_at s' c chan) = []
            \<and> idle_bds (chan_at s' c chan) =
                idle_bds (chan_at s c chan) @ map cleared (pend_bds (chan_at s c chan))
            \<and> unbinds (trace s') = unbinds (trace s) @
                concat (map (unbind_calls (fd s)) (pend_bds (chan_at s c chan)))"
    proof
      assume "r = Ok ()"
      with r D have "drain_pending h (fd s) (chan_at s c chan) tr0 = (Ok (), ch1, tr1)" by simp
      from drain_pending_Ok [OF this] u0
      show "pend_bds (chan_at s' c chan) = []
            \<and> idle_bds (chan_at s' c chan) =
                idle_bds (chan_at s c chan) @ map cleared (pend_bds (chan_at s c chan))
            \<and> unbinds (trace s') = unbinds (trace s) @
                concat (map (unbind_calls (fd s)) (pend_bds (chan_at s c chan)))"
        by (simp add: s' chan_at_set_chan [OF c True] trace_set_chan unbinds_append unbinds_unbind_calls)
    qed
    from k 1 2 show ?thesis by blast
  qed
qed

text \<open>
  The wait returns when the hardware reports completion: if the poll after \<open>k\<close> failed
  polls is answered \<open>XAIE_OK\<close>, any fuel above \<open>k\<close> is enough; and when no detach fails,
  the drain that follows ends normally.
\<close>

lemma wait_for_done_returns:
  "h (tr @ replicate k (DmaWaitForDone tile pchan gmdir t)) (DmaWaitForDone tile pchan gmdir t) = XAIE_OK
     \<Longrightarrow> k < fuel \<Longrightarrow> \<exists>tr'. wait_for_done fuel h tile pchan gmdir t tr = Some tr'"
proof (induction fuel arbitrary: k tr)
  case 0
  then show ?case by simp
next
  case (Suc fuel)
  show ?case
  proof (cases "h tr (DmaWaitForDone tile pchan gmdir t) = XAIE_OK")
    case True
    then show ?thesis by (simp add: Let_def)
  next
    case False
    with Suc.prems(1) obtain k' where k: "k = Suc k'" by (cases k) auto
    with Suc.prems have
      "h ((tr @ [DmaWaitForDone tile pchan gmdir t]) @ replicate k' (DmaWaitForDone tile pchan gmdir t))
         (DmaWaitForDone tile pchan gmdir t) = XAIE_OK" and "k' < fuel"
      by (simp_all add: replicate_app_Cons_same)
    from Suc.IH [OF this] False show ?thesis by (simp add: Let_def)
  qed
qed

lemma drain_front_detach_ok:
  assumes "\<forall>tr f b. h tr (IoctlDetachDmabuf f b) = 0" and "pend_bds ch \<noteq> []"
  shows "\<exists>ch' tr'. drain_front h f ch tr = (Ok (), ch', tr')"
  using assms by (cases "pend_bds ch") (simp_all add: drain_front_def clear_bd_def Let_def)

lemma drain_pending_detach_ok:
  assumes "\<forall>tr f b. h tr (IoctlDetachDmabuf f b) = 0"
  shows "\<exists>ch' tr'. drain_pending h f ch tr = (Ok (), ch', tr')"
  using assms
proof (induction h f ch tr rule: drain_pending.induct)
  case (1 h f ch tr)
  show ?case
  proof (cases "pend_bds ch = []")
    case True
    then show ?thesis by simp
  next
    case False
    from drain_front_detach_ok [OF "1.prems" False] obtain ch1 tr1 where
      d: "drain_front h f ch tr = (Ok (), ch1, tr1)" by blast
    from "1.IH" [OF False d [symmetric] refl refl "1.prems"] obtain ch' tr' where
      "drain_pending h f ch1 tr1 = (Ok (), ch', tr')" by blast
    with False d show ?thesis by simp
  qed
qed

lemma wait_sync_bo_returns:
  assumes "h (trace s @ replicate k (DmaWaitForDone tile (CONVERT_LCHANL_TO_PCHANL chan) gmdir t))
             (DmaWaitForDone tile (CONVERT_LCHANL_TO_PCHANL chan) gmdir t) = XAIE_OK"
    and "k < fuel"
    and "chan < length (dma_chan (shim_dma s ! c))"
    and "\<forall>tr f b. h tr (IoctlDetachDmabuf f b) = 0"
  shows "\<exists>s'. wait_sync_bo fuel h s c chan tile gmdir t = Some (Ok (), s')"
proof -
  from wait_for_done_returns [where h = h and tr = "trace s" and k = k, OF assms(1,2)] obtain tr0 where
    W: "wait_for_done fuel h tile (CONVERT_LCHANL_TO_PCHANL chan) gmdir t (trace s) = Some tr0" by blast
  from drain_pending_detach_ok [OF assms(4)] obtain ch' tr' where
    "drain_pending h (fd s) (dma_chan (shim_dma s ! c) ! chan) tr0 = (Ok (), ch', tr')" by blast
  with W assms(3) show ?thesis by (simp add: wait_sync_bo_def)
qed

lemma prepare_bd_not_Undefined: "prepare_bd h f bd bo tr = (r, bd', tr') \<Longrightarrow> r \<noteq> Undefined"
  by (auto simp: prepare_bd_def Let_def split: if_splits)

text \<open>
  The busy wait of a submission on a full channel: when the idle queue is empty and the
  hardware's count of pending descriptors leaves \<open>n\<close> of them complete, with \<open>n\<close> positive
  and no more than are pending, and no detach fails, one round of the loop releases
  exactly the first \<open>n\<close> pending descriptors, oldest first, and ends the wait.
\<close>

lemma drain_completed_detach_ok:
  assumes "\<forall>tr f b. h tr (IoctlDetachDmabuf f b) = 0"
  shows "n \<le> length (pend_bds ch) \<Longrightarrow> \<exists>ch' tr'. drain_completed h f n ch tr = (Ok (), ch', tr')"
proof (induction n arbitrary: ch tr)
  case 0
  then show ?case by simp
next
  case (Suc n)
  then have ne: "pend_bds ch \<noteq> []" by auto
  from drain_front_detach_ok [OF assms ne] obtain ch1 tr1 where
    d: "drain_front h f ch tr = (Ok (), ch1, tr1)" by blast
  from drain_front_Ok [OF d] Suc.prems have "n \<le> length (pend_bds ch1)" by auto
  from Suc.IH [OF this] obtain ch' tr' where "drain_completed h f n ch1 tr1 = (Ok (), ch', tr')"
    by blast
  with d show ?case by simp
qed

lemma find_free_bd_drains:
  assumes det: "\<forall>tr f b. h tr (IoctlDetachDmabuf f b) = 0"
    and idle: "idle_bds ch = []"
    and n: "int n = int maxq - h tr (DmaGetPendingBdCount tile pchan gmdir) mod 256"
    and pos: "0 < n" and le: "n \<le> length (pend_bds ch)"
  shows "\<exists>ch'. find_free_bd (Suc k) h f tile pchan gmdir maxq ch tr =
            Some (Ok (), ch',
                  tr @ [DmaGetPendingBdCount tile pchan gmdir]
                     @ concat (map (unbind_calls f) (take n (pend_bds ch))))
         \<and> pend_bds ch' = drop n (pend_bds ch)
         \<and> idle_bds ch' = map cleared (take n (pend_bds ch))"
proof -
  let ?c = "DmaGetPendingBdCount tile pchan gmdir"
  have nn: "nat (int maxq - h tr ?c mod 256) = n" using n by simp
  from drain_completed_detach_ok [OF det le] obtain ch' tr' where
    d: "drain_completed h f n ch (tr @ [?c]) = (Ok (), ch', tr')" by blast
  from drain_completed_Ok [OF d] idle have
    p: "pend_bds ch' = drop n (pend_bds ch)"
    and i: "idle_bds ch' = map cleared (take n (pend_bds ch))"
    and t: "tr' = (tr @ [?c]) @ concat (map (unbind_calls f) (take n (pend_bds ch)))"
    by simp_all
  from i pos le have ne: "idle_bds ch' \<noteq> []" by (cases "pend_bds ch") auto
  have "find_free_bd k h f tile pchan gmdir maxq ch' tr' = Some (Ok (), ch', tr')"
    using ne by (cases k) simp_all
  with idle d nn have "find_free_bd (Suc k) h f tile pchan gmdir maxq ch tr = Some (Ok (), ch', tr')"
    by (simp add: Let_def)
  with p i t show ?thesis by auto
qed

lemma prepare_bd_succeeds:
  assumes "\<forall>tr b. h tr (BOExport b) \<noteq> XRT_NULL_BO_EXPORT"
    and "\<forall>tr f b. h tr (IoctlAttachDmabuf f b) = 0"
  shows "\<exists>bd' tr'. prepare_bd h f bd bo tr = (Ok (), bd', tr')"
  using assms by (simp add: prepare_bd_def Let_def)

lemma submit_bd_busy_wait:
  assumes det: "\<forall>tr f b. h tr (IoctlDetachDmabuf f b) = 0"
    and c: "gmio_shim_col g < length (shim_dma s)"
    and ch: "gmio_channel_number g < length (dma_chan (shim_dma s ! gmio_shim_col g))"
    and idle: "idle_bds (chan_at s (gmio_shim_col g) (gmio_channel_number g)) = []"
    and n: "int n = int (maxqSize (shim_dma s ! gmio_shim_col g))
                     - h (trace s) (DmaGetPendingBdCount (XAie_TileLoc (gmio_shim_col g) 0)
                           (CONVERT_LCHANL_TO_PCHANL (gmio_channel_number g)) (gmdir_of g)) mod 256"
    and pos: "0 < n"
    and le: "n \<le> length (pend_bds (chan_at s (gmio_shim_col g) (gmio_channel_number g)))"
    and fuel: "0 < fuel"
  shows "\<exists>r s'. submit_bd fuel h s bo g sz off = Some (r, s')
           \<and> unbinds (trace s') = unbinds (trace s) @
                concat (map (unbind_calls (fd s))
                  (take n (pend_bds (chan_at s (gmio_shim_col g) (gmio_channel_number g)))))
           \<and> idle_bds (chan_at s' (gmio_shim_col g) (gmio_channel_number g)) =
                tl (map cleared (take n (pend_bds (chan_at s (gmio_shim_col g) (gmio_channel_number g)))))
           \<and> (r = Ok () \<longrightarrow>
                (\<exists>bd. pend_bds (chan_at s' (gmio_shim_col g) (gmio_channel_number g)) =
                   drop n (pend_bds (chan_at s (gmio_shim_col g) (gmio_channel_number g))) @ [bd]))
           \<and> ((\<forall>tr b. h tr (BOExport b) \<noteq> XRT_NULL_BO_EXPORT)
                \<and> (\<forall>tr f b. h tr (IoctlAttachDmabuf f b) = 0) \<longrightarrow> r = Ok ())"
proof -
  let ?c = "gmio_shim_col g" and ?chan = "gmio_channel_number g"
  let ?pend = "pend_bds (chan_at s ?c ?chan)"
  let ?poll = "DmaGetPendingBdCount (XAie_TileLoc ?c 0) (CONVERT_LCHANL_TO_PCHANL ?chan) (gmdir_of g)"
  obtain k where k: "fuel = Suc k" using fuel by (cases fuel) auto
  from find_free_bd_drains [OF det idle n pos le, of k "fd s"] obtain ch0 where
    F: "find_free_bd fuel h (fd s) (XAie_TileLoc ?c 0) (CONVERT_LCHANL_TO_PCHANL ?chan)
          (gmdir_of g) (maxqSize (shim_dma s ! ?c)) (chan_at s ?c ?chan) (trace s) =
        Some (Ok (), ch0, trace s @ [?poll] @ concat (map (unbind_calls (fd s)) (take n ?pend)))"
    and p0: "pend_bds ch0 = drop n ?pend"
    and i0: "idle_bds ch0 = map cleared (take n ?pend)"
    unfolding k by blast
  let ?tr0 = "trace s @ [?poll] @ concat (map (unbind_calls (fd s)) (take n ?pend))"
  have u0: "unbinds ?tr0 = unbinds (trace s) @ concat (map (unbind_calls (fd s)) (take n ?pend))"
  proof -
    have "\<And>xs. unbinds (?poll # xs) = unbinds xs" by (simp add: unbinds_def)
    then show ?thesis by (simp add: unbinds_append unbinds_unbind_calls)
  qed
  from i0 pos le have "idle_bds ch0 \<noteq> []" by (cases ?pend) auto
  then obtain bd rest where i: "idle_bds ch0 = bd # rest"
    by (cases "idle_bds ch0") auto
  with i0 have rest: "rest = tl (map cleared (take n ?pend))"
    by (metis list.sel(3))
  obtain r1 bd1 tr1 where P: "prepare_bd h (fd s) bd bo ?tr0 = (r1, bd1, tr1)"
    by (cases "prepare_bd h (fd s) bd bo ?tr0")
  from prepare_bd_unbinds [OF P] have u1: "unbinds tr1 = unbinds ?tr0" .
  have good: "(\<forall>tr b. h tr (BOExport b) \<noteq> XRT_NULL_BO_EXPORT)
                \<and> (\<forall>tr f b. h tr (IoctlAttachDmabuf f b) = 0) \<longrightarrow> r1 = Ok ()"
    using prepare_bd_succeeds [of h "fd s" bd bo ?tr0] P by auto
  show ?thesis
  proof (cases r1)
    case (Ok x)
    let ?tr2 = "tr1 @ [DmaSetAddrLen (vaddr bd1 + int off) sz,
                       DmaSetLock (bd_num bd1) (bd_num bd1),
                       DmaEnableBd,
                       DmaWriteBd (XAie_TileLoc ?c 0) (bd_num bd1),
                       DmaChannelPushBdToQueue (XAie_TileLoc ?c 0) (CONVERT_LCHANL_TO_PCHANL ?chan) (gmdir_of g) (bd_num bd1)]"
    let ?s' = "set_chan s ?c ?chan (ch0\<lparr>idle_bds := rest, pend_bds := pend_bds ch0 @ [bd1]\<rparr>) ?tr2"
    from c ch F i P Ok have run: "submit_bd fuel h s bo g sz off = Some (Ok (), ?s')"
      by (simp add: submit_bd_def Let_def chan_at_def)
    have "unbinds (trace ?s') = unbinds tr1" by (simp add: trace_set_chan unbinds_def)
    moreover have "chan_at ?s' ?c ?chan = ch0\<lparr>idle_bds := rest, pend_bds := pend_bds ch0 @ [bd1]\<rparr>"
      by (rule chan_at_set_chan [OF c ch])
    ultimately show ?thesis using run u0 u1 p0 rest by auto
  next
    case (Throw e)
    let ?s' = "set_chan s ?c ?chan (ch0\<lparr>idle_bds := rest\<rparr>) tr1"
    from c ch F i P Throw have run: "submit_bd fuel h s bo g sz off = Some (Throw e, ?s')"
      by (simp add: submit_bd_def Let_def chan_at_def)
    have "unbinds (trace ?s') = unbinds tr1" by (simp add: trace_set_chan)
    moreover have "chan_at ?s' ?c ?chan = ch0\<lparr>idle_bds := rest\<rparr>"
      by (rule chan_at_set_chan [OF c ch])
    ultimately show ?thesis using run u0 u1 rest good Throw by auto
  next
    case Undefined
    with prepare_bd_not_Undefined [OF P] show ?thesis by simp
  qed
qed

lemma submit_sync_bo_passes_checks:
  assumes "dir = XCL_BO_SYNC_BO_GMIO_TO_AIE \<and> gmio_type g = 0
         \<or> dir = XCL_BO_SYNC_BO_AIE_TO_GMIO \<and> gmio_type g = 1"
    and "even sz"
  shows "submit_sync_bo fuel h s bo g dir sz off = submit_bd fuel h s bo g sz off"
  using assms alignment_test_is_parity [of sz] by (auto simp: submit_sync_bo_def)

text \<open>
  C5. Pending descriptors are drained in submission order. A submission that returns
  normally has put its descriptor at the back of the channel's pending queue, behind the
  survivors of the queue in their old order. Whatever way the wait operation or a
  submission ends, the host-memory bindings it has released are those of the first \<open>k\<close>
  descriptors of the pending queue, oldest first; a wait on a checked column that returns
  normally has released all of them, left the pending queue empty and appended the
  descriptors, cleared, to the idle queue in the same order. And the wait does return
  normally, given fuel above \<open>k\<close>, when the hardware reports completion after \<open>k\<close> failed
  polls and no detach fails. The busy wait of a submission drains too: on a channel whose
  idle queue is empty, when the hardware's pending count leaves \<open>m\<close> descriptors complete
  (\<open>m = maxqSize - npend\<close>, positive and no more than are pending) and no detach fails, a
  submission that passes the direction and alignment checks, given any fuel, returns
  having released exactly the first \<open>m\<close> pending descriptors, oldest first; the idle queue
  then holds those descriptors, cleared, but for the first, which the submission took;
  and when the export and the attach succeed it returns normally.
\<close>

theorem C5_drain_is_fifo:
  assumes "c < length (shim_dma s)"
  shows "(wait_sync_bo fuel h s c chan tile gmdir t = Some (r, s1) \<longrightarrow>
            (\<exists>k \<le> length (pend_bds (chan_at s c chan)).
               unbinds (trace s1) = unbinds (trace s) @
                 concat (map (unbind_calls (fd s)) (take k (pend_bds (chan_at s c chan)))))
          \<and> (r = Ok () \<longrightarrow>
               pend_bds (chan_at s1 c chan) = []
               \<and> idle_bds (chan_at s1 c chan) =
                   idle_bds (chan_at s c chan) @ map cleared (pend_bds (chan_at s c chan))
               \<and> unbinds (trace s1) = unbinds (trace s) @
                   concat (map (unbind_calls (fd s)) (pend_bds (chan_at s c chan)))))
       \<and> (submit_sync_bo fuel h s bo g dir sz off = Some (r', s2) \<longrightarrow>
            (\<exists>k \<le> length (pend_bds (chan_at s (gmio_shim_col g) (gmio_channel_number g))).
               unbinds (trace s2) = unbinds (trace s) @
                 concat (map (unbind_calls (fd s))
                   (take k (pend_bds (chan_at s (gmio_shim_col g) (gmio_channel_number g)))))
               \<and> (r' = Ok () \<longrightarrow>
                    (\<exists>bd. pend_bds (chan_at s2 (gmio_shim_col g) (gmio_channel_number g)) =
                       drop k (pend_bds (chan_at s (gmio_shim_col g) (gmio_channel_number g))) @ [bd]))))
       \<and> (h (trace s @ replicate n (DmaWaitForDone tile (CONVERT_LCHANL_TO_PCHANL chan) gmdir t))
              (DmaWaitForDone tile (CONVERT_LCHANL_TO_PCHANL chan) gmdir t) = XAIE_OK
          \<and> n < fuel
          \<and> chan < length (dma_chan (shim_dma s ! c))
          \<and> (\<forall>tr f b. h tr (IoctlDetachDmabuf f b) = 0) \<longrightarrow>
            (\<exists>s'. wait_sync_bo fuel h s c chan tile gmdir t = Some (Ok (), s')))
       \<and> ((dir = XCL_BO_SYNC_BO_GMIO_TO_AIE \<and> gmio_type g = 0
             \<or> dir = XCL_BO_SYNC_BO_AIE_TO_GMIO \<and> gmio_type g = 1)
          \<and> even sz
          \<and> gmio_shim_col g < length (shim_dma s)
          \<and> gmio_channel_number g < length (dma_chan (shim_dma s ! gmio_shim_col g))
          \<and> idle_bds (chan_at s (gmio_shim_col g) (gmio_channel_number g)) = []
          \<and> int m = int (maxqSize (shim_dma s ! gmio_shim_col g))
                     - h (trace s) (DmaGetPendingBdCount (XAie_TileLoc (gmio_shim_col g) 0)
                           (CONVERT_LCHANL_TO_PCHANL (gmio_channel_number g)) (gmdir_of g)) mod 256
          \<and> 0 < m
          \<and> m \<le> length (pend_bds (chan_at s (gmio_shim_col g) (gmio_channel_number g)))
          \<and> 0 < fuel
          \<and> (\<forall>tr f b. h tr (IoctlDetachDmabuf f b) = 0) \<longrightarrow>
            (\<exists>r3 s3. submit_sync_bo fuel h s bo g dir sz off = Some (r3, s3)
               \<and> unbinds (trace s3) = unbinds (trace s) @
                    concat (map (unbind_calls (fd s))
                      (take m (pend_bds (chan_at s (gmio_shim_col g) (gmio_channel_number g)))))
               \<and> idle_bds (chan_at s3 (gmio_shim_col g) (gmio_channel_number g)) =
                    tl (map cleared (take m (pend_bds (chan_at s (gmio_shim_col g) (gmio_channel_number g)))))
               \<and> (r3 = Ok () \<longrightarrow>
                    (\<exists>bd. pend_bds (chan_at s3 (gmio_shim_col g) (gmio_channel_number g)) =
                       drop m (pend_bds (chan_at s (gmio_shim_col g) (gmio_channel_number g))) @ [bd]))
               \<and> ((\<forall>tr b. h tr (BOExport b) \<noteq> XRT_NULL_BO_EXPORT)
                    \<and> (\<forall>tr f b. h tr (IoctlAttachDmabuf f b) = 0) \<longrightarrow> r3 = Ok ())))"
proof (intro conjI impI)
  assume "wait_sync_bo fuel h s c chan tile gmdir t = Some (r, s1)"
  from wait_sync_bo_fifo [OF this assms]
  show "\<exists>k \<le> length (pend_bds (chan_at s c chan)).
               unbinds (trace s1) = unbinds (trace s) @
                 concat (map (unbind_calls (fd s)) (take k (pend_bds (chan_at s c chan))))"
    by blast
next
  assume "wait_sync_bo fuel h s c chan tile gmdir t = Some (r, s1)" and "r = Ok ()"
  with wait_sync_bo_fifo [OF _ assms]
  show "pend_bds (chan_at s1 c chan) = []"
    and "idle_bds (chan_at s1 c chan) =
                   idle_bds (chan_at s c chan) @ map cleared (pend_bds (chan_at s c chan))"
    and "unbinds (trace s1) = unbinds (trace s) @
                   concat (map (unbind_calls (fd s)) (pend_bds (chan_at s c chan)))"
    by blast+
next
  assume "submit_sync_bo fuel h s bo g dir sz off = Some (r', s2)"
  then show "\<exists>k \<le> length (pend_bds (chan_at s (gmio_shim_col g) (gmio_channel_number g))).
               unbinds (trace s2) = unbinds (trace s) @
                 concat (map (unbind_calls (fd s))
                   (take k (pend_bds (chan_at s (gmio_shim_col g) (gmio_channel_number g)))))
               \<and> (r' = Ok () \<longrightarrow>
                    (\<exists>bd. pend_bds (chan_at s2 (gmio_shim_col g) (gmio_channel_number g)) =
                       drop k (pend_bds (chan_at s (gmio_shim_col g) (gmio_channel_number g))) @ [bd]))"
    by (rule submit_sync_bo_fifo)
next
  assume "h (trace s @ replicate n (DmaWaitForDone tile (CONVERT_LCHANL_TO_PCHANL chan) gmdir t))
              (DmaWaitForDone tile (CONVERT_LCHANL_TO_PCHANL chan) gmdir t) = XAIE_OK
          \<and> n < fuel
          \<and> chan < length (dma_chan (shim_dma s ! c))
          \<and> (\<forall>tr f b. h tr (IoctlDetachDmabuf f b) = 0)"
  then show "\<exists>s'. wait_sync_bo fuel h s c chan tile gmdir t = Some (Ok (), s')"
    using wait_sync_bo_returns [where h = h and s = s and k = n] by blast
next
  assume a: "(dir = XCL_BO_SYNC_BO_GMIO_TO_AIE \<and> gmio_type g = 0
             \<or> dir = XCL_BO_SYNC_BO_AIE_TO_GMIO \<and> gmio_type g = 1)
          \<and> even sz
          \<and> gmio_shim_col g < length (shim_dma s)
          \<and> gmio_channel_number g < length (dma_chan (shim_dma s ! gmio_shim_col g))
          \<and> idle_bds (chan_at s (gmio_shim_col g) (gmio_channel_number g)) = []
          \<and> int m = int (maxqSize (shim_dma s ! gmio_shim_col g))
                     - h (trace s) (DmaGetPendingBdCount (XAie_TileLoc (gmio_shim_col g) 0)
                           (CONVERT_LCHANL_TO_PCHANL (gmio_channel_number g)) (gmdir_of g)) mod 256
          \<and> 0 < m
          \<and> m \<le> length (pend_bds (chan_at s (gmio_shim_col g) (gmio_channel_number g)))
          \<and> 0 < fuel
          \<and> (\<forall>tr f b. h tr (IoctlDetachDmabuf f b) = 0)"
  then have eq: "submit_sync_bo fuel h s bo g dir sz off = submit_bd fuel h s bo g sz off"
    using submit_sync_bo_passes_checks [of dir g sz] by blast
  from a have det: "\<forall>tr f b. h tr (IoctlDetachDmabuf f b) = 0"
    and c: "gmio_shim_col g < length (shim_dma s)"
    and ch: "gmio_channel_number g < length (dma_chan (shim_dma s ! gmio_shim_col g))"
    and idle: "idle_bds (chan_at s (gmio_shim_col g) (gmio_channel_number g)) = []"
    and m: "int m = int (maxqSize (shim_dma s ! gmio_shim_col g))
                     - h (trace s) (DmaGetPendingBdCount (XAie_TileLoc (gmio_shim_col g) 0)
                           (CONVERT_LCHANL_TO_PCHANL (gmio_channel_number g)) (gmdir_of g)) mod 256"
    and pos: "0 < m"
    and le: "m \<le> length (pend_bds (chan_at s (gmio_shim_col g) (gmio_channel_number g)))"
    and fuel: "0 < fuel"
    by blast+
  show "\<exists>r3 s3. submit_sync_bo fuel h s bo g dir sz off = Some (r3, s3)
               \<and> unbinds (trace s3) = unbinds (trace s) @
                    concat (map (unbind_calls (fd s))
                      (take m (pend_bds (chan_at s (gmio_shim_col g) (gmio_channel_number g)))))
               \<and> idle_bds (chan_at s3 (gmio_shim_col g) (gmio_channel_number g)) =
                    tl (map cleared (take m (pend_bds (chan_at s (gmio_shim_col g) (gmio_channel_number g)))))
               \<and> (r3 = Ok () \<longrightarrow>
                    (\<exists>bd. pend_bds (chan_at s3 (gmio_shim_col g) (gmio_channel_number g)) =
                       drop m (pend_bds (chan_at s (gmio_shim_col g) (gmio_channel_number g))) @ [bd]))
               \<and> ((\<forall>tr b. h tr (BOExport b) \<noteq> XRT_NULL_BO_EXPORT)
                    \<and> (\<forall>tr f b. h tr (IoctlAttachDmabuf f b) = 0) \<longrightarrow> r3 = Ok ())"
    unfolding eq by (rule submit_bd_busy_wait [OF det c ch idle m pos le fuel])
qed

lemma example_aie_two_pending_chan:
  "chan_at example_aie_two_pending 0 0 =
     \<lparr>idle_bds = [example_bd 2, example_bd 3],
      pend_bds = [\<lparr>bd_num = 0, buf_fd = 17, vaddr = 69632, bd_size = 4096\<rparr>,
                  \<lparr>bd_num = 1, buf_fd = 18, vaddr = 73728, bd_size = 4096\<rparr>]\<rparr>"
  by (simp add: example_aie_two_pending_def example_defs dma_defs Let_def)

lemma example_aie_two_pending_rest:
  "length (shim_dma example_aie_two_pending) = 1 \<and> fd example_aie_two_pending = 3
   \<and> unbinds (trace example_aie_two_pending) = []
   \<and> length (dma_chan (shim_dma example_aie_two_pending ! 0)) = 4"
  by (simp add: example_aie_two_pending_def example_defs dma_defs Let_def unbinds_def)

lemma drain_completed_two:
  "drain_completed h f 2 ch tr =
     (case drain_front h f ch tr of
        (Ok _, ch', tr') \<Rightarrow> drain_completed h f (Suc 0) ch' tr'
      | r \<Rightarrow> r)"
  by (simp add: numeral_2_eq_2)

lemma example_aie_full_chan:
  "chan_at example_aie_full 0 0 =
     \<lparr>idle_bds = [],
      pend_bds = [\<lparr>bd_num = 0, buf_fd = 17, vaddr = 69632, bd_size = 4096\<rparr>,
                  \<lparr>bd_num = 1, buf_fd = 18, vaddr = 73728, bd_size = 4096\<rparr>,
                  \<lparr>bd_num = 2, buf_fd = 19, vaddr = 77824, bd_size = 4096\<rparr>,
                  \<lparr>bd_num = 3, buf_fd = 20, vaddr = 81920, bd_size = 4096\<rparr>]\<rparr>"
  by (simp add: example_aie_full_def example_aie_two_pending_def example_defs dma_defs Let_def)

lemma example_aie_full_rest:
  "length (shim_dma example_aie_full) = 1 \<and> fd example_aie_full = 3
   \<and> unbinds (trace example_aie_full) = []
   \<and> length (dma_chan (shim_dma example_aie_full ! 0)) = 4
   \<and> maxqSize (shim_dma example_aie_full ! 0) = 4"
  by (simp add: example_aie_full_def example_aie_two_pending_def example_defs dma_defs Let_def
        unbinds_def)

theorem C5_drain_is_fifo_witness:
  "0 < length (shim_dma example_aie_two_pending)
   \<and> example_hw (trace example_aie_two_pending @ replicate 0 (DmaWaitForDone (XAie_TileLoc 0 0) (CONVERT_LCHANL_TO_PCHANL 0) DMA_MM2S 0))
        (DmaWaitForDone (XAie_TileLoc 0 0) (CONVERT_LCHANL_TO_PCHANL 0) DMA_MM2S 0) = XAIE_OK
   \<and> (0::nat) < 1
   \<and> 0 < length (dma_chan (shim_dma example_aie_two_pending ! 0))
   \<and> (\<forall>tr f b. example_hw tr (IoctlDetachDmabuf f b) = 0)
   \<and> map bd_num (pend_bds (chan_at example_aie_two_pending 0 0)) = [0, 1]
   \<and> outcome_of (wait_sync_bo 1 example_hw example_aie_two_pending 0 0 (XAie_TileLoc 0 0) DMA_MM2S 0)
       = Some (Ok ())
   \<and> pending_nums (wait_sync_bo 1 example_hw example_aie_two_pending 0 0 (XAie_TileLoc 0 0) DMA_MM2S 0) 0 0
       = Some []
   \<and> unbinds_after (wait_sync_bo 1 example_hw example_aie_two_pending 0 0 (XAie_TileLoc 0 0) DMA_MM2S 0)
       = Some [Munmap 69632 4096, IoctlDetachDmabuf 3 17, Munmap 73728 4096, IoctlDetachDmabuf 3 18]
   \<and> outcome_of (submit_sync_bo 0 example_hw example_aie_two_pending 9 example_gmio
                    XCL_BO_SYNC_BO_GMIO_TO_AIE 256 0) = Some (Ok ())
   \<and> pending_nums (submit_sync_bo 0 example_hw example_aie_two_pending 9 example_gmio
                    XCL_BO_SYNC_BO_GMIO_TO_AIE 256 0) 0 0 = Some [0, 1, 2]
   \<and> 0 < length (shim_dma example_aie_full)
   \<and> gmio_type example_gmio = 0 \<and> even (256::nat)
   \<and> gmio_shim_col example_gmio < length (shim_dma example_aie_full)
   \<and> gmio_channel_number example_gmio
        < length (dma_chan (shim_dma example_aie_full ! gmio_shim_col example_gmio))
   \<and> idle_bds (chan_at example_aie_full 0 0) = []
   \<and> map bd_num (pend_bds (chan_at example_aie_full 0 0)) = [0, 1, 2, 3]
   \<and> int 2 = int (maxqSize (shim_dma example_aie_full ! gmio_shim_col example_gmio))
               - example_hw_two_left (trace example_aie_full)
                   (DmaGetPendingBdCount (XAie_TileLoc (gmio_shim_col example_gmio) 0)
                      (CONVERT_LCHANL_TO_PCHANL (gmio_channel_number example_gmio))
                      (gmdir_of example_gmio)) mod 256
   \<and> (\<forall>tr f b. example_hw_two_left tr (IoctlDetachDmabuf f b) = 0)
   \<and> (\<forall>tr b. example_hw_two_left tr (BOExport b) \<noteq> XRT_NULL_BO_EXPORT)
   \<and> (\<forall>tr f b. example_hw_two_left tr (IoctlAttachDmabuf f b) = 0)
   \<and> outcome_of (submit_sync_bo 1 example_hw_two_left example_aie_full 11 example_gmio
                    XCL_BO_SYNC_BO_GMIO_TO_AIE 256 0) = Some (Ok ())
   \<and> unbinds_after (submit_sync_bo 1 example_hw_two_left example_aie_full 11 example_gmio
                    XCL_BO_SYNC_BO_GMIO_TO_AIE 256 0)
       = Some [Munmap 69632 4096, IoctlDetachDmabuf 3 17, Munmap 73728 4096, IoctlDetachDmabuf 3 18]
   \<and> pending_nums (submit_sync_bo 1 example_hw_two_left example_aie_full 11 example_gmio
                    XCL_BO_SYNC_BO_GMIO_TO_AIE 256 0) 0 0 = Some [2, 3, 0]"
proof -
  have c: "0 < length (shim_dma example_aie_two_pending)"
    by (simp add: example_aie_two_pending_rest)
  have polled: "example_hw (trace example_aie_two_pending @ replicate 0 (DmaWaitForDone (XAie_TileLoc 0 0) (CONVERT_LCHANL_TO_PCHANL 0) DMA_MM2S 0))
        (DmaWaitForDone (XAie_TileLoc 0 0) (CONVERT_LCHANL_TO_PCHANL 0) DMA_MM2S 0) = XAIE_OK"
    by (simp add: example_hw_def XAIE_OK_def)
  have ch: "0 < length (dma_chan (shim_dma example_aie_two_pending ! 0))"
    by (simp add: example_aie_two_pending_rest)
  have det: "\<forall>tr f b. example_hw tr (IoctlDetachDmabuf f b) = 0"
    by (simp add: example_hw_def)
  note fifo = C5_drain_is_fifo [OF c]
  from fifo [where fuel = 1 and h = example_hw and chan = 0 and tile = "XAie_TileLoc 0 0"
               and gmdir = DMA_MM2S and t = 0 and n = 0,
             THEN conjunct2, THEN conjunct2, THEN conjunct1, THEN mp]
       polled ch det
  obtain s1 where W: "wait_sync_bo 1 example_hw example_aie_two_pending 0 0 (XAie_TileLoc 0 0) DMA_MM2S 0
                        = Some (Ok (), s1)"
    by auto
  obtain s2 where S: "submit_sync_bo 0 example_hw example_aie_two_pending 9 example_gmio
                        XCL_BO_SYNC_BO_GMIO_TO_AIE 256 0 = Some (Ok (), s2)"
    by (simp add: example_aie_two_pending_def example_defs dma_defs Let_def)
  from fifo [where fuel = 1 and h = example_hw and chan = 0 and r = "Ok ()" and ?s1.0 = s1
               and tile = "XAie_TileLoc 0 0" and gmdir = DMA_MM2S and t = 0,
             THEN conjunct1, THEN mp, OF W]
  have w1: "pend_bds (chan_at s1 0 0) = []"
    and w2: "unbinds (trace s1) = unbinds (trace example_aie_two_pending) @
               concat (map (unbind_calls (fd example_aie_two_pending)) (pend_bds (chan_at example_aie_two_pending 0 0)))"
    by blast+
  from fifo [where fuel = 0 and h = example_hw and g = example_gmio and r' = "Ok ()" and ?s2.0 = s2
               and bo = 9 and dir = XCL_BO_SYNC_BO_GMIO_TO_AIE and sz = 256 and off = 0,
             THEN conjunct2, THEN conjunct1, THEN mp, OF S]
  obtain k bd where k: "k \<le> length (pend_bds (chan_at example_aie_two_pending 0 0))"
    and s2: "pend_bds (chan_at s2 0 0) = drop k (pend_bds (chan_at example_aie_two_pending 0 0)) @ [bd]"
    by (auto simp: example_gmio_def)
  have p2: "pending_nums (submit_sync_bo 0 example_hw example_aie_two_pending 9 example_gmio
                    XCL_BO_SYNC_BO_GMIO_TO_AIE 256 0) 0 0 = Some [0, 1, 2]"
    by (simp add: example_aie_two_pending_def example_defs dma_defs Let_def)
  have u1: "unbinds_after (wait_sync_bo 1 example_hw example_aie_two_pending 0 0 (XAie_TileLoc 0 0) DMA_MM2S 0)
       = Some [Munmap 69632 4096, IoctlDetachDmabuf 3 17, Munmap 73728 4096, IoctlDetachDmabuf 3 18]"
    using W w2 by (simp add: unbinds_after_def example_aie_two_pending_chan example_aie_two_pending_rest unbind_calls_def)
  have p1: "pending_nums (wait_sync_bo 1 example_hw example_aie_two_pending 0 0 (XAie_TileLoc 0 0) DMA_MM2S 0) 0 0
       = Some []"
    using W w1 by (simp add: pending_nums_def)
  have first: "0 < length (shim_dma example_aie_two_pending)
   \<and> example_hw (trace example_aie_two_pending @ replicate 0 (DmaWaitForDone (XAie_TileLoc 0 0) (CONVERT_LCHANL_TO_PCHANL 0) DMA_MM2S 0))
        (DmaWaitForDone (XAie_TileLoc 0 0) (CONVERT_LCHANL_TO_PCHANL 0) DMA_MM2S 0) = XAIE_OK
   \<and> (0::nat) < 1
   \<and> 0 < length (dma_chan (shim_dma example_aie_two_pending ! 0))
   \<and> (\<forall>tr f b. example_hw tr (IoctlDetachDmabuf f b) = 0)
   \<and> map bd_num (pend_bds (chan_at example_aie_two_pending 0 0)) = [0, 1]
   \<and> outcome_of (wait_sync_bo 1 example_hw example_aie_two_pending 0 0 (XAie_TileLoc 0 0) DMA_MM2S 0)
       = Some (Ok ())
   \<and> pending_nums (wait_sync_bo 1 example_hw example_aie_two_pending 0 0 (XAie_TileLoc 0 0) DMA_MM2S 0) 0 0
       = Some []
   \<and> unbinds_after (wait_sync_bo 1 example_hw example_aie_two_pending 0 0 (XAie_TileLoc 0 0) DMA_MM2S 0)
       = Some [Munmap 69632 4096, IoctlDetachDmabuf 3 17, Munmap 73728 4096, IoctlDetachDmabuf 3 18]
   \<and> outcome_of (submit_sync_bo 0 example_hw example_aie_two_pending 9 example_gmio
                    XCL_BO_SYNC_BO_GMIO_TO_AIE 256 0) = Some (Ok ())
   \<and> pending_nums (submit_sync_bo 0 example_hw example_aie_two_pending 9 example_gmio
                    XCL_BO_SYNC_BO_GMIO_TO_AIE 256 0) 0 0 = Some [0, 1, 2]"
    using p2 u1 p1 c polled ch det W S by (simp add: outcome_of_def example_aie_two_pending_chan)
  have cf: "0 < length (shim_dma example_aie_full)"
    by (simp add: example_aie_full_rest)
  have ty: "gmio_type example_gmio = 0" and col: "gmio_shim_col example_gmio = 0"
    and chn: "gmio_channel_number example_gmio = 0"
    by (simp_all add: example_gmio_def)
  have colr: "gmio_shim_col example_gmio < length (shim_dma example_aie_full)"
    by (simp add: col example_aie_full_rest)
  have chr: "gmio_channel_number example_gmio
        < length (dma_chan (shim_dma example_aie_full ! gmio_shim_col example_gmio))"
    by (simp add: col chn example_aie_full_rest)
  have idle: "idle_bds (chan_at example_aie_full (gmio_shim_col example_gmio) (gmio_channel_number example_gmio)) = []"
    by (simp add: col chn example_aie_full_chan)
  have m: "int 2 = int (maxqSize (shim_dma example_aie_full ! gmio_shim_col example_gmio))
               - example_hw_two_left (trace example_aie_full)
                   (DmaGetPendingBdCount (XAie_TileLoc (gmio_shim_col example_gmio) 0)
                      (CONVERT_LCHANL_TO_PCHANL (gmio_channel_number example_gmio))
                      (gmdir_of example_gmio)) mod 256"
    by (simp add: col example_aie_full_rest example_hw_two_left_def)
  have le: "2 \<le> length (pend_bds (chan_at example_aie_full (gmio_shim_col example_gmio) (gmio_channel_number example_gmio)))"
    by (simp add: col chn example_aie_full_chan)
  have det2: "\<forall>tr f b. example_hw_two_left tr (IoctlDetachDmabuf f b) = 0"
    by (simp add: example_hw_two_left_def example_hw_def)
  have ex2: "\<forall>tr b. example_hw_two_left tr (BOExport b) \<noteq> XRT_NULL_BO_EXPORT"
    by (simp add: example_hw_two_left_def example_hw_def XRT_NULL_BO_EXPORT_def)
  have at2: "\<forall>tr f b. example_hw_two_left tr (IoctlAttachDmabuf f b) = 0"
    by (simp add: example_hw_two_left_def example_hw_def)
  from C5_drain_is_fifo [OF cf, where fuel = 1 and h = example_hw_two_left and g = example_gmio
         and dir = XCL_BO_SYNC_BO_GMIO_TO_AIE and sz = 256 and m = 2 and bo = 11 and off = 0,
         THEN conjunct2, THEN conjunct2, THEN conjunct2, THEN mp]
       ty colr chr idle m le det2 ex2 at2
  obtain s3 where B: "submit_sync_bo 1 example_hw_two_left example_aie_full 11 example_gmio
                        XCL_BO_SYNC_BO_GMIO_TO_AIE 256 0 = Some (Ok (), s3)"
    and b1: "unbinds (trace s3) = unbinds (trace example_aie_full) @
               concat (map (unbind_calls (fd example_aie_full))
                 (take 2 (pend_bds (chan_at example_aie_full (gmio_shim_col example_gmio) (gmio_channel_number example_gmio)))))"
    and b2: "\<exists>bd. pend_bds (chan_at s3 (gmio_shim_col example_gmio) (gmio_channel_number example_gmio)) =
               drop 2 (pend_bds (chan_at example_aie_full (gmio_shim_col example_gmio) (gmio_channel_number example_gmio))) @ [bd]"
    by auto
  have u3: "unbinds_after (submit_sync_bo 1 example_hw_two_left example_aie_full 11 example_gmio
                    XCL_BO_SYNC_BO_GMIO_TO_AIE 256 0)
       = Some [Munmap 69632 4096, IoctlDetachDmabuf 3 17, Munmap 73728 4096, IoctlDetachDmabuf 3 18]"
    using B b1 by (simp add: unbinds_after_def col chn example_aie_full_chan example_aie_full_rest unbind_calls_def)
  have p3: "pending_nums (submit_sync_bo 1 example_hw_two_left example_aie_full 11 example_gmio
                    XCL_BO_SYNC_BO_GMIO_TO_AIE 256 0) 0 0 = Some [2, 3, 0]"
    by (simp add: example_aie_full_def example_aie_two_pending_def example_defs dma_defs Let_def
          drain_completed_two)
  have second: "0 < length (shim_dma example_aie_full)
   \<and> gmio_type example_gmio = 0 \<and> even (256::nat)
   \<and> gmio_shim_col example_gmio < length (shim_dma example_aie_full)
   \<and> gmio_channel_number example_gmio
        < length (dma_chan (shim_dma example_aie_full ! gmio_shim_col example_gmio))
   \<and> idle_bds (chan_at example_aie_full 0 0) = []
   \<and> map bd_num (pend_bds (chan_at example_aie_full 0 0)) = [0, 1, 2, 3]
   \<and> int 2 = int (maxqSize (shim_dma example_aie_full ! gmio_shim_col example_gmio))
               - example_hw_two_left (trace example_aie_full)
                   (DmaGetPendingBdCount (XAie_TileLoc (gmio_shim_col example_gmio) 0)
                      (CONVERT_LCHANL_TO_PCHANL (gmio_channel_number example_gmio))
                      (gmdir_of example_gmio)) mod 256
   \<and> (\<forall>tr f b. example_hw_two_left tr (IoctlDetachDmabuf f b) = 0)
   \<and> (\<forall>tr b. example_hw_two_left tr (BOExport b) \<noteq> XRT_NULL_BO_EXPORT)
   \<and> (\<forall>tr f b. example_hw_two_left tr (IoctlAttachDmabuf f b) = 0)
   \<and> outcome_of (submit_sync_bo 1 example_hw_two_left example_aie_full 11 example_gmio
                    XCL_BO_SYNC_BO_GMIO_TO_AIE 256 0) = Some (Ok ())
   \<and> unbinds_after (submit_sync_bo 1 example_hw_two_left example_aie_full 11 example_gmio
                    XCL_BO_SYNC_BO_GMIO_TO_AIE 256 0)
       = Some [Munmap 69632 4096, IoctlDetachDmabuf 3 17, Munmap 73728 4096, IoctlDetachDmabuf 3 18]
   \<and> pending_nums (submit_sync_bo 1 example_hw_two_left example_aie_full 11 example_gmio
                    XCL_BO_SYNC_BO_GMIO_TO_AIE 256 0) 0 0 = Some [2, 3, 0]"
    using cf ty colr chr m det2 ex2 at2 B u3 p3
    by (simp add: outcome_of_def example_aie_full_chan)
  from first second show ?thesis by blast
qed

section \<open>Conservation of descriptor slots\<close>

text \<open>
  Every path other than a failed binding keeps the channel's slots: a drain step moves one
  descriptor from pending to idle or changes nothing, a wait keeps the count however it
  ends, and a submission keeps it unless it raises out of \<^verbatim>\<open>prepare_bd\<close>, when one slot
  is gone.
\<close>

lemma drain_front_slots: "drain_front h f ch tr = (r, ch', tr') \<Longrightarrow> slots ch' = slots ch"
  by (auto simp: drain_front_def slots_def clear_bd_def Let_def split: list.splits if_splits)

lemma drain_completed_slots: "drain_completed h f n ch tr = (r, ch', tr') \<Longrightarrow> slots ch' = slots ch"
proof (induction n arbitrary: ch tr)
  case 0
  then show ?case by simp
next
  case (Suc n)
  obtain r1 ch1 tr1 where d: "drain_front h f ch tr = (r1, ch1, tr1)"
    by (cases "drain_front h f ch tr")
  from drain_front_slots [OF d] have s1: "slots ch1 = slots ch" .
  show ?case
  proof (cases r1)
    case (Ok x)
    with Suc.prems d have "drain_completed h f n ch1 tr1 = (r, ch', tr')" by simp
    from Suc.IH [OF this] s1 show ?thesis by simp
  next
    case (Throw e)
    with Suc.prems d s1 show ?thesis by auto
  next
    case Undefined
    with Suc.prems d s1 show ?thesis by auto
  qed
qed

lemma drain_pending_slots: "drain_pending h f ch tr = (r, ch', tr') \<Longrightarrow> slots ch' = slots ch"
proof (induction h f ch tr rule: drain_pending.induct)
  case (1 h f ch tr)
  show ?case
  proof (cases "pend_bds ch = []")
    case True
    with "1.prems" show ?thesis by simp
  next
    case False
    obtain r1 ch1 tr1 where d: "drain_front h f ch tr = (r1, ch1, tr1)"
      by (cases "drain_front h f ch tr")
    from drain_front_slots [OF d] have s1: "slots ch1 = slots ch" .
    show ?thesis
    proof (cases r1)
      case (Ok x)
      with "1.prems" False d have run: "drain_pending h f ch1 tr1 = (r, ch', tr')" by simp
      from "1.IH" [OF False d [unfolded Ok, symmetric] refl refl run] s1 show ?thesis by simp
    next
      case (Throw e)
      with "1.prems" False d s1 show ?thesis by auto
    next
      case Undefined
      with "1.prems" False d s1 show ?thesis by auto
    qed
  qed
qed

lemma find_free_bd_slots:
  "find_free_bd fuel h f tile pchan gmdir maxq ch tr = Some (r, ch', tr') \<Longrightarrow> slots ch' = slots ch"
proof (induction fuel arbitrary: ch tr)
  case 0
  then show ?case by (auto split: if_splits)
next
  case (Suc fuel)
  show ?case
  proof (cases "idle_bds ch \<noteq> []")
    case True
    with Suc.prems show ?thesis by auto
  next
    case False
    define c where "c = DmaGetPendingBdCount tile pchan gmdir"
    define n where "n = nat (int maxq - h tr c mod 256)"
    obtain r1 ch1 tr1 where d: "drain_completed h f n ch (tr @ [c]) = (r1, ch1, tr1)"
      by (cases "drain_completed h f n ch (tr @ [c])")
    from drain_completed_slots [OF d] have s1: "slots ch1 = slots ch" .
    show ?thesis
    proof (cases r1)
      case (Ok x)
      with Suc.prems False d
      have "find_free_bd fuel h f tile pchan gmdir maxq ch1 tr1 = Some (r, ch', tr')"
        by (simp add: Let_def c_def n_def)
      from Suc.IH [OF this] s1 show ?thesis by simp
    next
      case (Throw e)
      with Suc.prems False d s1 show ?thesis by (auto simp: Let_def c_def n_def)
    next
      case Undefined
      with Suc.prems False d s1 show ?thesis by (auto simp: Let_def c_def n_def)
    qed
  qed
qed

lemma chan_at_set_chan_if:
  "chan_at (set_chan s c chan ch tr) c chan =
     (if c < length (shim_dma s) \<and> chan < length (dma_chan (shim_dma s ! c)) then ch else chan_at s c chan)"
  by (cases "c < length (shim_dma s)"; cases "chan < length (dma_chan (shim_dma s ! c))")
     (simp_all add: chan_at_def set_chan_def list_update_beyond)

lemma wait_sync_bo_slots:
  assumes "wait_sync_bo fuel h s c chan tile gmdir t = Some (r, s')"
  shows "slots (chan_at s' c chan) = slots (chan_at s c chan)"
proof -
  from assms obtain tr0 where
    W: "wait_for_done fuel h tile (CONVERT_LCHANL_TO_PCHANL chan) gmdir t (trace s) = Some tr0"
    by (auto simp: wait_sync_bo_def split: option.splits)
  show ?thesis
  proof (cases "chan < length (dma_chan (shim_dma s ! c))")
    case False
    with assms W have "s' = s\<lparr>trace := tr0\<rparr>" by (auto simp: wait_sync_bo_def)
    then show ?thesis by (simp add: chan_at_def)
  next
    case True
    obtain r1 ch1 tr1 where D: "drain_pending h (fd s) (chan_at s c chan) tr0 = (r1, ch1, tr1)"
      by (cases "drain_pending h (fd s) (chan_at s c chan) tr0")
    from assms W True D have "s' = set_chan s c chan ch1 tr1"
      by (auto simp: wait_sync_bo_def chan_at_def)
    with drain_pending_slots [OF D] show ?thesis by (simp add: chan_at_set_chan_if)
  qed
qed

lemma submit_bd_slots:
  assumes run: "submit_bd fuel h s bo g sz off = Some (r, s')"
  shows "slots (chan_at s' (gmio_shim_col g) (gmio_channel_number g))
           = slots (chan_at s (gmio_shim_col g) (gmio_channel_number g))
         \<or> (\<exists>e. r = Throw e)
            \<and> Suc (slots (chan_at s' (gmio_shim_col g) (gmio_channel_number g)))
                = slots (chan_at s (gmio_shim_col g) (gmio_channel_number g))"
    and "r = Ok () \<Longrightarrow> slots (chan_at s' (gmio_shim_col g) (gmio_channel_number g))
           = slots (chan_at s (gmio_shim_col g) (gmio_channel_number g))"
proof -
  let ?c = "gmio_shim_col g" and ?chan = "gmio_channel_number g"
  have "(slots (chan_at s' ?c ?chan) = slots (chan_at s ?c ?chan)
         \<or> (\<exists>e. r = Throw e) \<and> Suc (slots (chan_at s' ?c ?chan)) = slots (chan_at s ?c ?chan))
        \<and> (r = Ok () \<longrightarrow> slots (chan_at s' ?c ?chan) = slots (chan_at s ?c ?chan))"
  proof (cases "?c < length (shim_dma s) \<and> ?chan < length (dma_chan (shim_dma s ! ?c))")
    case False
    with run have "s' = s"
      by (auto simp: submit_bd_def Let_def split: if_splits)
    then show ?thesis by simp
  next
    case True
    then have c: "?c < length (shim_dma s)" and ch: "?chan < length (dma_chan (shim_dma s ! ?c))"
      by blast+
    define F where "F = find_free_bd fuel h (fd s) (XAie_TileLoc ?c 0) (CONVERT_LCHANL_TO_PCHANL ?chan)
        (gmdir_of g) (maxqSize (shim_dma s ! ?c)) (chan_at s ?c ?chan) (trace s)"
    from run c ch have body: "(case F of
                None \<Rightarrow> None
              | Some (Ok _, ch, tr) \<Rightarrow>
                  (case idle_bds ch of
                     [] \<Rightarrow> Some (Undefined, set_chan s ?c ?chan ch tr)
                   | bd # rest \<Rightarrow>
                       let ch1 = ch\<lparr>idle_bds := rest\<rparr>
                       in (case prepare_bd h (fd s) bd bo tr of
                             (Ok _, bd1, tr1) \<Rightarrow>
                               let tr2 = tr1 @
                                     [DmaSetAddrLen (vaddr bd1 + int off) sz,
                                      DmaSetLock (bd_num bd1) (bd_num bd1),
                                      DmaEnableBd,
                                      DmaWriteBd (XAie_TileLoc ?c 0) (bd_num bd1),
                                      DmaChannelPushBdToQueue (XAie_TileLoc ?c 0) (CONVERT_LCHANL_TO_PCHANL ?chan) (gmdir_of g) (bd_num bd1)];
                                   ch2 = ch1\<lparr>pend_bds := pend_bds ch1 @ [bd1]\<rparr>
                               in Some (Ok (), set_chan s ?c ?chan ch2 tr2)
                           | (Throw e, _, tr1) \<Rightarrow> Some (Throw e, set_chan s ?c ?chan ch1 tr1)
                           | (Undefined, _, tr1) \<Rightarrow> Some (Undefined, set_chan s ?c ?chan ch1 tr1)))
              | Some (Throw e, ch, tr) \<Rightarrow> Some (Throw e, set_chan s ?c ?chan ch tr)
              | Some (Undefined, ch, tr) \<Rightarrow> Some (Undefined, set_chan s ?c ?chan ch tr)) = Some (r, s')"
      by (simp add: submit_bd_def Let_def F_def chan_at_def)
    then obtain r0 ch0 tr0 where F: "F = Some (r0, ch0, tr0)"
      by (cases F) auto
    from find_free_bd_slots [OF F [unfolded F_def]] have s0: "slots ch0 = slots (chan_at s ?c ?chan)" .
    show ?thesis
    proof (cases "r0 = Ok ()")
      case no: False
      with body F have "chan_at s' ?c ?chan = ch0 \<and> r \<noteq> Ok ()"
        by (cases r0) (auto simp: chan_at_set_chan [OF c ch])
      with s0 show ?thesis by simp
    next
      case ok0: True
      show ?thesis
      proof (cases "idle_bds ch0")
        case Nil
        with body F ok0 have "chan_at s' ?c ?chan = ch0 \<and> r \<noteq> Ok ()"
          by (auto simp: chan_at_set_chan [OF c ch])
        with s0 show ?thesis by simp
      next
        case (Cons bd rest)
        obtain r1 bd1 tr1 where P: "prepare_bd h (fd s) bd bo tr0 = (r1, bd1, tr1)"
          by (cases "prepare_bd h (fd s) bd bo tr0")
        show ?thesis
        proof (cases r1)
          case (Ok x)
          with body F ok0 Cons P
          have "chan_at s' ?c ?chan = ch0\<lparr>idle_bds := rest, pend_bds := pend_bds ch0 @ [bd1]\<rparr>"
            by (auto simp: Let_def chan_at_set_chan [OF c ch])
          with s0 Cons show ?thesis by (simp add: slots_def)
        next
          case (Throw e)
          with body F ok0 Cons P
          have "chan_at s' ?c ?chan = ch0\<lparr>idle_bds := rest\<rparr> \<and> r = Throw e"
            by (auto simp: Let_def chan_at_set_chan [OF c ch])
          with s0 Cons show ?thesis by (auto simp: slots_def)
        next
          case Undefined
          with prepare_bd_not_Undefined [OF P] show ?thesis by simp
        qed
      qed
    qed
  qed
  then show "slots (chan_at s' ?c ?chan) = slots (chan_at s ?c ?chan)
         \<or> (\<exists>e. r = Throw e) \<and> Suc (slots (chan_at s' ?c ?chan)) = slots (chan_at s ?c ?chan)"
    and "r = Ok () \<Longrightarrow> slots (chan_at s' ?c ?chan) = slots (chan_at s ?c ?chan)"
    by blast+
qed

lemma submit_sync_bo_slots:
  assumes "submit_sync_bo fuel h s bo g dir sz off = Some (r, s')"
  shows "slots (chan_at s' (gmio_shim_col g) (gmio_channel_number g))
           = slots (chan_at s (gmio_shim_col g) (gmio_channel_number g))
         \<or> (\<exists>e. r = Throw e)
            \<and> Suc (slots (chan_at s' (gmio_shim_col g) (gmio_channel_number g)))
                = slots (chan_at s (gmio_shim_col g) (gmio_channel_number g))"
  using submit_sync_bo_cases [OF assms]
proof
  assume "s' = s \<and> r \<noteq> Ok ()"
  then show ?thesis by simp
next
  assume "submit_bd fuel h s bo g sz off = Some (r, s')"
  then show ?thesis by (rule submit_bd_slots(1))
qed


text \<open>
  C3. Claim: on every channel the idle and the pending descriptors together are always as
  many as at initialization; no operation creates or discards a slot. The code does
  otherwise when binding the buffer fails: the descriptor has been popped off the idle
  queue into a local copy, \<^verbatim>\<open>prepare_bd\<close> raises, and the copy is pushed nowhere. On the
  example instance, whose channel holds 4 idle and 0 pending descriptors, a submission whose
  buffer export fails raises and leaves 3 idle and 0 pending.
\<close>

theorem C3_failed_binding_loses_a_slot:
  "chan_sizes example_aie 0 0 = (4, 0)
   \<and> failure (sync_bo_nb 0 example_hw_no_export example_aie 7 ''gm0'' XCL_BO_SYNC_BO_GMIO_TO_AIE 256 0)
       = Some (xrt_error (- 24) ''Sync AIE Bo: fail to export BO.'')
   \<and> sizes_after (sync_bo_nb 0 example_hw_no_export example_aie 7 ''gm0'' XCL_BO_SYNC_BO_GMIO_TO_AIE 256 0) 0 0
       = Some (3, 0)"
  by (simp add: example_defs dma_defs Let_def)

section \<open>Profiling: stopping a session twice\<close>

text \<open>
  C2. Claim: stopping is idempotent; a second stop of the same handle is a silent no-op
  because the first stop marks the session's option field. The code does otherwise: stop
  never writes the option field, so the guard \<^verbatim>\<open>option >= 0\<close> holds again and the loop over
  the session's resources runs again. On the example instance, session 0 is started and
  stopped, and its option is still the one it was started with; session 1 is then granted
  the same counter 0 and event port 0; a second stop of handle 0 resets counter 0 and the
  routing of event port 0, which session 1 now holds. A second stop right after the first
  repeats the three hardware resets as well.
\<close>

theorem C2_second_stop_is_not_a_no_op:
  "fst (start_profiling example_hw example_aie IO_STREAM_RUNNING_EVENT_COUNT ''gm0'' [] 0) = Ok 0
   \<and> fst (stop_profiling example_hw example_started 0) = Ok ()
   \<and> map option (eventRecords example_stopped) = [IO_STREAM_RUNNING_EVENT_COUNT]
   \<and> trace (snd (stop_profiling example_hw example_stopped 0)) =
       trace example_stopped @
         [PerfCounterReset (XAie_TileLoc 0 0) XAIE_PL_MOD 0,
          PerfCounterResetControlReset (XAie_TileLoc 0 0) XAIE_PL_MOD 0,
          EventSelectStrmPortReset (XAie_TileLoc 0 0) 0]
   \<and> fst (start_profiling example_hw example_stopped IO_STREAM_RUNNING_EVENT_COUNT ''pl0'' [] 0) = Ok 1
   \<and> map res_id (acquiredResources (eventRecords example_restarted ! 1)) = [0, 0]
   \<and> shimTiles (resources example_restarted) 0 =
       \<lparr>performanceCounters = [Some 1, None], streamEventPorts = [Some 1, None]\<rparr>
   \<and> fst (stop_profiling example_hw example_restarted 0) = Ok ()
   \<and> trace (snd (stop_profiling example_hw example_restarted 0)) =
       trace example_restarted @
         [PerfCounterReset (XAie_TileLoc 0 0) XAIE_PL_MOD 0,
          PerfCounterResetControlReset (XAie_TileLoc 0 0) XAIE_PL_MOD 0,
          EventSelectStrmPortReset (XAie_TileLoc 0 0) 0]"
  by (simp add: example_restarted_def example_stopped_def example_started_def
        example_defs profiling_defs Let_def)

section \<open>Profiling: a start that is granted one resource of two\<close>

lemma first_free_Some: "first_free xs = Some i \<Longrightarrow> i < length xs \<and> xs ! i = None"
proof (induction xs arbitrary: i)
  case Nil
  then show ?case by simp
next
  case (Cons x xs)
  then show ?case by (cases x) (auto split: option.splits)
qed

lemma release_after_request:
  "request_slot xs h = (i, ys) \<Longrightarrow> 0 \<le> i \<Longrightarrow> release_slot ys h i = xs"
  by (auto simp: request_slot_def release_slot_def list_update_same_conv
           dest: first_free_Some split: option.splits)

lemma request_slot_nonneg: "request_slot xs h = (i, ys) \<Longrightarrow> (0 \<le> i) = (first_free xs \<noteq> None)"
  by (auto simp: request_slot_def split: option.splits)

lemma request_slot_refused: "request_slot xs h = (i, ys) \<Longrightarrow> \<not> 0 \<le> i \<Longrightarrow> ys = xs"
  by (auto simp: request_slot_def split: option.splits)

lemma start_on_tile_unwinds:
  assumes "first_free (streamEventPorts (shimTiles (resources s) (Col t))) = None
         \<or> first_free (performanceCounters (shimTiles (resources s) (Col t))) = None"
  shows "start_on_tile s opt t m sid =
     (Throw (xrt_error (- EAGAIN)
        ''Can't start profiling: Failed to request performance counter or stream switch event port resources.''), s)"
proof -
  let ?h = "int_of_size_t (length (eventRecords s))"
  let ?ports = "streamEventPorts (shimTiles (resources s) (Col t))"
  let ?counters = "performanceCounters (shimTiles (resources s) (Col t))"
  obtain i ps where p: "request_slot ?ports ?h = (i, ps)"
    by (cases "request_slot ?ports ?h")
  obtain j cs where c: "request_slot ?counters ?h = (j, cs)"
    by (cases "request_slot ?counters ?h")
  have neg: "\<not> (0 \<le> j \<and> 0 \<le> i)"
    using assms request_slot_nonneg [OF p] request_slot_nonneg [OF c] by auto
  have rp: "0 \<le> i \<Longrightarrow> release_slot ps ?h i = ?ports"
    using release_after_request [OF p] by simp
  have rc: "0 \<le> j \<Longrightarrow> release_slot cs ?h j = ?counters"
    using release_after_request [OF c] by simp
  have np: "\<not> 0 \<le> i \<Longrightarrow> ps = ?ports"
    using request_slot_refused [OF p] by simp
  have nc: "\<not> 0 \<le> j \<Longrightarrow> cs = ?counters"
    using request_slot_refused [OF c] by simp
  show ?thesis
    using neg p c rp rc np nc
    by (cases "0 \<le> i"; cases "0 \<le> j")
       (simp_all add: start_on_tile_def requestStreamEventPort_def requestPerformanceCounter_def
          releaseStreamEventPort_def releasePerformanceCounter_def Let_def)
qed

text \<open>
  C4. When the tile of the named port has a free stream event port and no free performance
  counter, or a free counter and no free event port, \<^verbatim>\<open>start_profiling\<close> raises the error
  of code \<open>-EAGAIN\<close> (the spec's ResourceExhausted) and leaves the instance as it was: the
  resource that was granted is back in the pool and no session record was appended.
\<close>

theorem C4_partial_grant_is_unwound:
  assumes "devInst s" and "opt = IO_STREAM_RUNNING_EVENT_COUNT"
    and "monitored_tile s n = Some t"
    and "(first_free (streamEventPorts (shimTiles (resources s) (Col t))) = None)
        \<noteq> (first_free (performanceCounters (shimTiles (resources s) (Col t))) = None)"
  shows "start_profiling h s opt n n2 v =
     (Throw (xrt_error (- EAGAIN)
        ''Can't start profiling: Failed to request performance counter or stream switch event port resources.''), s)"
proof -
  have one: "first_free (streamEventPorts (shimTiles (resources s) (Col t))) = None
         \<or> first_free (performanceCounters (shimTiles (resources s) (Col t))) = None"
    using assms(4) by auto
  show ?thesis
    using assms(1-3) start_on_tile_unwinds [OF one]
    by (auto simp: start_profiling_def monitored_tile_def split: option.splits)
qed

theorem C4_partial_grant_is_unwound_witness:
  "devInst example_aie_no_counter
   \<and> monitored_tile example_aie_no_counter ''gm0'' = Some (XAie_TileLoc 0 0)
   \<and> first_free (streamEventPorts (shimTiles (resources example_aie_no_counter) 0)) = Some 0
   \<and> first_free (performanceCounters (shimTiles (resources example_aie_no_counter) 0)) = None
   \<and> start_profiling example_hw example_aie_no_counter IO_STREAM_RUNNING_EVENT_COUNT ''gm0'' [] 0 =
       (Throw (xrt_error (- EAGAIN)
          ''Can't start profiling: Failed to request performance counter or stream switch event port resources.''),
        example_aie_no_counter)"
proof -
  have d: "devInst example_aie_no_counter"
    by (simp add: example_defs)
  have m: "monitored_tile example_aie_no_counter ''gm0'' = Some (XAie_TileLoc 0 0)"
    by (simp add: monitored_tile_def find_gmio_def find_plio_def example_defs)
  have p: "first_free (streamEventPorts (shimTiles (resources example_aie_no_counter) 0)) = Some 0"
    by (simp add: example_defs)
  have c: "first_free (performanceCounters (shimTiles (resources example_aie_no_counter) 0)) = None"
    by (simp add: example_defs)
  have x: "(first_free (streamEventPorts (shimTiles (resources example_aie_no_counter) (Col (XAie_TileLoc 0 0)))) = None)
        \<noteq> (first_free (performanceCounters (shimTiles (resources example_aie_no_counter) (Col (XAie_TileLoc 0 0)))) = None)"
    using p c by (simp add: XAie_TileLoc_def)
  show ?thesis
    using d m p c C4_partial_grant_is_unwound [OF d refl m x, of example_hw "[]" 0] by simp
qed

section \<open>Operations on a port name that is in no table\<close>

text \<open>
  C6, as the claim states it: an absent port makes the operation fail with a NotFound
  error, as distinct from InvalidArgument. The code has no such distinction: the error it
  raises for an absent port carries the code \<open>-EINVAL\<close>, the code it raises for a
  direction that does not match the port (an invalid argument); the message alone differs.
\<close>

theorem C6_not_found_has_the_code_of_invalid_argument:
  "failure (sync_bo 0 example_hw example_aie 7 ''nope'' XCL_BO_SYNC_BO_GMIO_TO_AIE 256 0)
     = Some (xrt_error (- EINVAL) ''Can't sync BO: GMIO name not found'')
   \<and> failure (sync_bo 0 example_hw example_aie 7 ''gm0'' XCL_BO_SYNC_BO_AIE_TO_GMIO 256 0)
     = Some (xrt_error (- EINVAL) ''Sync BO direction does not match GMIO type'')
   \<and> map_option err_code (failure (sync_bo 0 example_hw example_aie 7 ''nope'' XCL_BO_SYNC_BO_GMIO_TO_AIE 256 0))
     = map_option err_code (failure (sync_bo 0 example_hw example_aie 7 ''gm0'' XCL_BO_SYNC_BO_AIE_TO_GMIO 256 0))"
  by (simp add: failure_def sync_bo_def submit_sync_bo_def find_gmio_def example_defs)

text \<open>
  C6, amended: on an initialized instance, a blocking or non-blocking submission and a
  wait whose port name is in no GMIO descriptor, and a profiling start with the supported
  option whose port name is in neither table, raise the error of code \<open>-EINVAL\<close> with a
  "not found" message and leave the instance exactly as it was.
\<close>

theorem C6_absent_port_raises_EINVAL_unchanged:
  assumes "devInst s"
  shows "(find_gmio (gmios s) n = None \<longrightarrow>
            sync_bo fuel h s bo n dir sz off =
              Some (Throw (xrt_error (- EINVAL) ''Can't sync BO: GMIO name not found''), s)
            \<and> sync_bo_nb fuel h s bo n dir sz off =
              Some (Throw (xrt_error (- EINVAL) ''Can't sync BO: GMIO name not found''), s)
            \<and> wait_gmio fuel h s n =
              Some (Throw (xrt_error (- EINVAL) ''Can't wait GMIO: GMIO name not found''), s))
       \<and> (opt = IO_STREAM_RUNNING_EVENT_COUNT \<and> find_gmio (gmios s) n = None \<and> find_plio (plios s) n = None \<longrightarrow>
            start_profiling h s opt n n2 v =
              (Throw (xrt_error (- EINVAL)
                 (''Can't start profiling: port name '' @ [CHR 0x27] @ n @ ''' not found'')), s))"
  using assms by (simp add: sync_bo_def sync_bo_nb_def wait_gmio_def start_profiling_def)

theorem C6_absent_port_raises_EINVAL_unchanged_witness:
  "devInst example_aie \<and> find_gmio (gmios example_aie) ''nope'' = None
   \<and> find_plio (plios example_aie) ''nope'' = None
   \<and> sync_bo 0 example_hw example_aie 7 ''nope'' XCL_BO_SYNC_BO_GMIO_TO_AIE 256 0 =
        Some (Throw (xrt_error (- EINVAL) ''Can't sync BO: GMIO name not found''), example_aie)
   \<and> sync_bo_nb 0 example_hw example_aie 7 ''nope'' XCL_BO_SYNC_BO_GMIO_TO_AIE 256 0 =
        Some (Throw (xrt_error (- EINVAL) ''Can't sync BO: GMIO name not found''), example_aie)
   \<and> wait_gmio 0 example_hw example_aie ''nope'' =
        Some (Throw (xrt_error (- EINVAL) ''Can't wait GMIO: GMIO name not found''), example_aie)
   \<and> start_profiling example_hw example_aie IO_STREAM_RUNNING_EVENT_COUNT ''nope'' [] 0 =
        (Throw (xrt_error (- EINVAL)
           (''Can't start profiling: port name '' @ [CHR 0x27] @ ''nope'' @ ''' not found'')), example_aie)"
proof -
  have d: "devInst example_aie" by (simp add: example_defs)
  have g: "find_gmio (gmios example_aie) ''nope'' = None"
    by (simp add: find_gmio_def example_defs)
  have p: "find_plio (plios example_aie) ''nope'' = None"
    by (simp add: find_plio_def example_defs)
  show ?thesis
    using d g p
      C6_absent_port_raises_EINVAL_unchanged [OF d, of "''nope''" 0 example_hw 7
        XCL_BO_SYNC_BO_GMIO_TO_AIE 256 0 IO_STREAM_RUNNING_EVENT_COUNT "[]" 0]
    by simp
qed

section \<open>Profiling: a port name in both tables\<close>

text \<open>
  C7. On an initialized instance and with the supported option, a profiling start whose
  port name is found among the GMIO ports and among the PLIO ports raises the error of code
  \<open>-EINVAL\<close> (the spec's InvalidArgument) and leaves the instance exactly as it was: the
  pool, the session list and the call history are untouched, so nothing was requested.
\<close>

theorem C7_ambiguous_port_acquires_nothing:
  assumes "devInst s" and "opt = IO_STREAM_RUNNING_EVENT_COUNT"
    and "find_gmio (gmios s) n = Some g" and "find_plio (plios s) n = Some p"
  shows "start_profiling h s opt n n2 v =
     (Throw (xrt_error (- EINVAL)
        (''Can't start profiling: ambiguous port name '' @ [CHR 0x27] @ n @ [CHR 0x27])), s)"
  using assms by (simp add: start_profiling_def)

theorem C7_ambiguous_port_acquires_nothing_witness:
  "devInst example_aie_ambiguous
   \<and> find_gmio (gmios example_aie_ambiguous) ''gm0'' = Some example_gmio
   \<and> find_plio (plios example_aie_ambiguous) ''gm0'' = Some (example_plio\<lparr>plio_name := ''gm0''\<rparr>)
   \<and> start_profiling example_hw example_aie_ambiguous IO_STREAM_RUNNING_EVENT_COUNT ''gm0'' [] 0 =
       (Throw (xrt_error (- EINVAL)
          (''Can't start profiling: ambiguous port name '' @ [CHR 0x27] @ ''gm0'' @ [CHR 0x27])),
        example_aie_ambiguous)"
proof -
  have d: "devInst example_aie_ambiguous" by (simp add: example_defs)
  have g: "find_gmio (gmios example_aie_ambiguous) ''gm0'' = Some example_gmio"
    by (simp add: find_gmio_def example_defs)
  have p: "find_plio (plios example_aie_ambiguous) ''gm0'' = Some (example_plio\<lparr>plio_name := ''gm0''\<rparr>)"
    by (simp add: find_plio_def example_defs)
  show ?thesis
    using d g p C7_ambiguous_port_acquires_nothing [OF d refl g p, of example_hw "[]" 0] by simp
qed

section \<open>Profiling: reading a session\<close>

text \<open>
  C8. For a handle in range whose session has a first recorded resource: when that
  resource is not a performance counter, \<^verbatim>\<open>read_profiling\<close> raises the error of code
  \<open>-EAGAIN\<close> with the message that the resources' order does not match (the spec's
  InvalidState), returns no value and changes nothing; when it is a performance counter,
  \<^verbatim>\<open>read_profiling\<close> returns the 32-bit value the hardware gives for that counter.
\<close>

theorem C8_read_checks_first_resource:
  assumes "size_t_of_int phdl < length (eventRecords s)"
    and "acquiredResources (eventRecords s ! size_t_of_int phdl) = a # rest"
  shows "(resource a \<noteq> performance_counter \<longrightarrow>
            read_profiling h s phdl =
              (Throw (xrt_error (- EAGAIN)
                 ''Can't read profiling: The acquired resources order does not match the profiling option.''), s))
       \<and> (resource a = performance_counter \<longrightarrow>
            fst (read_profiling h s phdl) =
              Ok (nat (h (trace s)
                         (PerfCounterGet (loc a) (AIEResourceModuletoXAieModuleTypeMap (module a))
                            (res_id a mod 256)) mod 2 ^ 32)))"
  using assms by (simp add: read_profiling_def Let_def)

theorem C8_read_checks_first_resource_witness:
  "size_t_of_int 0 < length (eventRecords example_aie_sessions)
   \<and> map resource (acquiredResources (eventRecords example_aie_sessions ! size_t_of_int 0))
       = [performance_counter, stream_switch_event_port]
   \<and> fst (read_profiling example_hw example_aie_sessions 0) = Ok 42
   \<and> size_t_of_int 1 < length (eventRecords example_aie_sessions)
   \<and> map resource (acquiredResources (eventRecords example_aie_sessions ! size_t_of_int 1))
       = [stream_switch_event_port, performance_counter]
   \<and> read_profiling example_hw example_aie_sessions 1 =
       (Throw (xrt_error (- EAGAIN)
          ''Can't read profiling: The acquired resources order does not match the profiling option.''),
        example_aie_sessions)"
proof -
  have r0: "size_t_of_int 0 < length (eventRecords example_aie_sessions)"
    and r1: "size_t_of_int 1 < length (eventRecords example_aie_sessions)"
    by (simp_all add: size_t_of_int_def example_defs)
  have a0: "acquiredResources (eventRecords example_aie_sessions ! size_t_of_int 0) =
      \<lparr>loc = XAie_TileLoc 0 0, module = pl_module, resource = performance_counter, res_id = 0\<rparr>
      # [\<lparr>loc = XAie_TileLoc 0 0, module = pl_module, resource = stream_switch_event_port, res_id = 0\<rparr>]"
    by (simp add: size_t_of_int_def example_defs)
  have a1: "acquiredResources (eventRecords example_aie_sessions ! size_t_of_int 1) =
      \<lparr>loc = XAie_TileLoc 0 0, module = pl_module, resource = stream_switch_event_port, res_id = 1\<rparr>
      # [\<lparr>loc = XAie_TileLoc 0 0, module = pl_module, resource = performance_counter, res_id = 1\<rparr>]"
    by (simp add: size_t_of_int_def example_defs)
  show ?thesis
    using r0 r1 a0 a1
      C8_read_checks_first_resource [OF r0 a0, of example_hw]
      C8_read_checks_first_resource [OF r1 a1, of example_hw]
    by (simp add: example_hw_def)
qed

section \<open>Profiling: handles\<close>

lemma int_of_size_t_small: "n < 2 ^ 31 \<Longrightarrow> int_of_size_t n = int n"
  by (simp add: int_of_size_t_def)

lemma start_on_tile_records:
  "start_on_tile s opt t m sid = (r, s') \<Longrightarrow>
     (case r of
        Ok hdl \<Rightarrow> hdl = int_of_size_t (length (eventRecords s)) \<and> (\<exists>e. eventRecords s' = eventRecords s @ [e])
      | _ \<Rightarrow> eventRecords s' = eventRecords s)"
  by (auto simp: start_on_tile_def Let_def split: prod.splits if_splits)

lemma start_profiling_records:
  "start_profiling h s opt n n2 v = (r, s') \<Longrightarrow>
     (case r of
        Ok hdl \<Rightarrow> hdl = int_of_size_t (length (eventRecords s)) \<and> (\<exists>e. eventRecords s' = eventRecords s @ [e])
      | _ \<Rightarrow> eventRecords s' = eventRecords s)"
  by (auto simp: start_profiling_def dest: start_on_tile_records split: if_splits option.splits)

lemma stop_profiling_records: "eventRecords (snd (stop_profiling h s phdl)) = eventRecords s"
  by (simp add: stop_profiling_def split: prod.splits)

lemma read_profiling_records: "eventRecords (snd (read_profiling h s phdl)) = eventRecords s"
  by (simp add: read_profiling_def Let_def split: list.splits)

text \<open>
  C9. While the session list has fewer than \<open>2 ^ 31\<close> records (the sizes a C++ \<^verbatim>\<open>int\<close>
  handle can hold), a profiling start that succeeds returns the length the list had before
  the call and appends exactly one record; a start that raises leaves the list as it was;
  stopping and reading leave the list as it was, so a stopped session's record stays at
  its index and no later start can return that index again.
\<close>

theorem C9_handle_is_insertion_index:
  assumes "length (eventRecords s) < 2 ^ 31"
  shows "(start_profiling h s opt n n2 v = (Ok hdl, s') \<longrightarrow>
            hdl = int (length (eventRecords s)) \<and> (\<exists>e. eventRecords s' = eventRecords s @ [e]))
       \<and> (start_profiling h s opt n n2 v = (Throw err, s') \<longrightarrow> eventRecords s' = eventRecords s)
       \<and> eventRecords (snd (stop_profiling h s phdl)) = eventRecords s
       \<and> eventRecords (snd (read_profiling h s phdl)) = eventRecords s"
proof (intro conjI impI)
  assume "start_profiling h s opt n n2 v = (Ok hdl, s')"
  from start_profiling_records [OF this]
  show "hdl = int (length (eventRecords s))" and "\<exists>e. eventRecords s' = eventRecords s @ [e]"
    using int_of_size_t_small [OF assms] by simp_all
next
  assume "start_profiling h s opt n n2 v = (Throw err, s')"
  from start_profiling_records [OF this] show "eventRecords s' = eventRecords s" by simp
next
  show "eventRecords (snd (stop_profiling h s phdl)) = eventRecords s"
    by (rule stop_profiling_records)
next
  show "eventRecords (snd (read_profiling h s phdl)) = eventRecords s"
    by (rule read_profiling_records)
qed

theorem C9_handle_is_insertion_index_witness:
  "length (eventRecords example_stopped) < 2 ^ 31
   \<and> length (eventRecords example_stopped) = 1
   \<and> fst (start_profiling example_hw example_stopped IO_STREAM_RUNNING_EVENT_COUNT ''pl0'' [] 0) = Ok 1
   \<and> length (eventRecords example_restarted) = 2
   \<and> take 1 (eventRecords example_restarted) = eventRecords example_stopped
   \<and> fst (start_profiling example_hw example_stopped 0 ''pl0'' [] 0)
       = Throw (xrt_error (- EINVAL) ''Start profiling fails: unknown profiling option.'')
   \<and> eventRecords (snd (start_profiling example_hw example_stopped 0 ''pl0'' [] 0)) = eventRecords example_stopped
   \<and> eventRecords (snd (stop_profiling example_hw example_stopped 0)) = eventRecords example_stopped
   \<and> eventRecords (snd (read_profiling example_hw example_stopped 0)) = eventRecords example_stopped"
proof -
  have len: "length (eventRecords example_stopped) = 1"
    by (simp add: example_stopped_def example_started_def example_defs profiling_defs Let_def)
  then have small: "length (eventRecords example_stopped) < 2 ^ 31" by simp
  obtain s1 where ok: "start_profiling example_hw example_stopped IO_STREAM_RUNNING_EVENT_COUNT ''pl0'' [] 0 = (Ok 1, s1)"
    by (simp add: example_stopped_def example_started_def example_defs profiling_defs Let_def)
  then have s1: "s1 = example_restarted" by (simp add: example_restarted_def)
  have dev: "devInst example_stopped"
    by (simp add: example_stopped_def example_started_def example_defs profiling_defs Let_def)
  obtain s2 where bad: "start_profiling example_hw example_stopped 0 ''pl0'' [] 0
      = (Throw (xrt_error (- EINVAL) ''Start profiling fails: unknown profiling option.''), s2)"
    using dev by (simp add: start_profiling_def IO_STREAM_RUNNING_EVENT_COUNT_def)
  note idx = C9_handle_is_insertion_index [OF small, where h = example_hw and n = "''pl0''" and ?n2.0 = "[]"
               and v = 0 and phdl = 0]
  from idx [where opt = IO_STREAM_RUNNING_EVENT_COUNT and hdl = 1 and s' = s1 and err = std_out_of_range] ok
  obtain e where app: "eventRecords s1 = eventRecords example_stopped @ [e]" by blast
  from idx [where opt = 0 and s' = s2 and hdl = 0
               and err = "xrt_error (- EINVAL) ''Start profiling fails: unknown profiling option.''"] bad
  have same: "eventRecords s2 = eventRecords example_stopped" by blast
  from idx [where opt = 0 and s' = s2 and hdl = 0 and err = std_out_of_range]
  have rest: "eventRecords (snd (stop_profiling example_hw example_stopped 0)) = eventRecords example_stopped"
    "eventRecords (snd (read_profiling example_hw example_stopped 0)) = eventRecords example_stopped"
    by blast+
  show ?thesis
    using len small ok bad app same rest s1 by simp
qed

section \<open>Profiling: handles out of range\<close>

text \<open>
  C10. \<^verbatim>\<open>read_profiling\<close> indexes the session list without a range check: for a handle
  that, converted to an unsigned index, is not below the number of sessions (any negative
  handle, or one past the end), the read has no defined behaviour, which is neither one of
  the typed errors nor a value; \<^verbatim>\<open>stop_profiling\<close> with the same handle returns normally and
  changes nothing.
\<close>

theorem C10_read_is_unchecked_stop_is_not:
  assumes "\<not> size_t_of_int phdl < length (eventRecords s)"
  shows "read_profiling h s phdl = (Undefined, s) \<and> stop_profiling h s phdl = (Ok (), s)"
  using assms by (simp add: read_profiling_def stop_profiling_def)

theorem C10_read_is_unchecked_stop_is_not_witness:
  "\<not> size_t_of_int (- 1) < length (eventRecords example_started)
   \<and> read_profiling example_hw example_started (- 1) = (Undefined, example_started)
   \<and> stop_profiling example_hw example_started (- 1) = (Ok (), example_started)
   \<and> \<not> size_t_of_int 1 < length (eventRecords example_started)
   \<and> read_profiling example_hw example_started 1 = (Undefined, example_started)
   \<and> stop_profiling example_hw example_started 1 = (Ok (), example_started)"
proof -
  have len: "length (eventRecords example_started) = 1"
    by (simp add: example_started_def example_defs profiling_defs Let_def)
  have a: "\<not> size_t_of_int (- 1) < length (eventRecords example_started)"
    by (simp add: len size_t_of_int_def)
  have b: "\<not> size_t_of_int 1 < length (eventRecords example_started)"
    by (simp add: len size_t_of_int_def)
  show ?thesis
    using a b
      C10_read_is_unchecked_stop_is_not [OF a, of example_hw]
      C10_read_is_unchecked_stop_is_not [OF b, of example_hw]
    by simp
qed

end
